theory Spec2Isabelle
  imports Complex_Main
begin

section \<open>Numbers, dates, failures\<close>

text \<open>
  The network economic state engine of \<^verbatim>\<open>agentfil/filecoin_model.py\<close>.
  Python floats are modelled as \<^typ>\<open>real\<close>: every statement below is about exact
  arithmetic, rounding is not modelled. A calendar date is its day ordinal. A pandas
  DataFrame is the list of its rows, the row label being the position (a RangeIndex).
  A raised exception is the \<open>Inl\<close> branch of the result. A cell that the source never
  assigned (NaN in pandas) keeps, in the model, the value of the frame given as input.
\<close>

type_synonym date = int

text \<open>
  \<open>ZeroDivision\<close> stands for a division by zero: a ZeroDivisionError of Python floats or
  a non-finite numpy value (inf, nan), which the model of floats as reals does not follow
  further. \<open>OutOfLedger\<close> stands for an assignment to a row label that the frame does not
  have, which pandas answers by appending a row of missing values; the model stops there.
\<close>

datatype py_error = KeyError | IndexError | ValueError | ZeroDivision | OutOfLedger

definition bind_res :: "py_error + 'a \<Rightarrow> ('a \<Rightarrow> py_error + 'b) \<Rightarrow> py_error + 'b" where
  "bind_res r f = (case r of Inl e \<Rightarrow> Inl e | Inr x \<Rightarrow> f x)"

text \<open>\<^verbatim>\<open>constants.py\<close>\<close>

definition EIB :: real where "EIB = 2 ^ 60"
definition PIB :: real where "PIB = 2 ^ 50"
definition GIB :: real where "GIB = 2 ^ 30"
definition SECTOR_SIZE :: real where "SECTOR_SIZE = 32 * GIB"
definition MIN_VALUE :: real where "MIN_VALUE = 1 / 10 ^ 6"

text \<open>\<^verbatim>\<open>np.clip(a, a_min, a_max)\<close>\<close>

definition np_clip :: "real \<Rightarrow> real \<Rightarrow> real \<Rightarrow> real" where
  "np_clip a a_min a_max = min a_max (max a a_min)"

section \<open>Frames\<close>

text \<open>
  \<^verbatim>\<open>df.loc[i, col]\<close> reads by label and raises KeyError for a label that is not in the
  index; \<^verbatim>\<open>df.iloc[i]\<close> reads by position, a negative position counting from the end.
\<close>

definition loc :: "'a list \<Rightarrow> int \<Rightarrow> py_error + 'a" where
  "loc df i = (if 0 \<le> i \<and> i < int (length df) then Inr (df ! nat i) else Inl KeyError)"

definition iloc :: "'a list \<Rightarrow> int \<Rightarrow> py_error + 'a" where
  "iloc df i =
     (let n = int (length df); j = (if i < 0 then n + i else i)
      in if 0 \<le> j \<and> j < n then Inr (df ! nat j) else Inl IndexError)"

text \<open>
  \<^verbatim>\<open>df.loc[i, col] += v\<close> (and an assignment that follows a read of the same row):
  the row is read, then written back; a missing label raises KeyError at the read.
\<close>

definition loc_update :: "'a list \<Rightarrow> int \<Rightarrow> ('a \<Rightarrow> 'a) \<Rightarrow> py_error + 'a list" where
  "loc_update df i f =
     (if 0 \<le> i \<and> i < int (length df) then Inr (df[nat i := f (df ! nat i)]) else Inl KeyError)"

text \<open>\<^verbatim>\<open>df[df['date'] == d].index[0]\<close>: the first row with that date, IndexError if none.\<close>

fun first_index :: "('a \<Rightarrow> bool) \<Rightarrow> 'a list \<Rightarrow> nat option" where
  "first_index P [] = None"
| "first_index P (x # xs) = (if P x then Some 0 else map_option Suc (first_index P xs))"

definition index0 :: "('a \<Rightarrow> bool) \<Rightarrow> 'a list \<Rightarrow> py_error + int" where
  "index0 P df = (case first_index P df of None \<Rightarrow> Inl IndexError | Some i \<Rightarrow> Inr (int i))"

section \<open>Data model\<close>

text \<open>One row of \<^verbatim>\<open>filecoin_df\<close> (the columns the engine reads or writes).\<close>

record day_slice =
  date :: date
  total_raw_power_eib :: real
  total_qa_power_eib :: real
  day_onboarded_rbp_pib :: real
  day_onboarded_qap_pib :: real
  day_renewed_rbp_pib :: real
  day_renewed_qap_pib :: real
  day_sched_expire_rbp_pib :: real
  day_sched_expire_qap_pib :: real
  day_terminated_rbp_pib :: real
  day_terminated_qap_pib :: real
  day_network_rbp_pib :: real
  day_network_qap_pib :: real
  network_baseline :: real
  day_network_reward :: real
  cum_network_reward :: real
  circ_supply :: real
  network_locked :: real
  network_locked_pledge :: real
  network_locked_reward :: real
  network_gas_burn :: real
  disbursed_reserve :: real
  total_vest :: real
  burn_from_terminations :: real
  scheduled_pledge_release :: real
  day_locked_pledge :: real
  day_renewed_pledge :: real
  pledge_delta :: real
  reward_delta :: real
  original_pledge :: real
  renewal_rate :: real
  day_pledge_per_QAP :: real
  day_rewards_per_sector :: real

text \<open>One row of an agent's \<^verbatim>\<open>accounting_df\<close>.\<close>

record acct_row =
  date_acct :: date
  onboard_pledge_FIL :: real
  renew_pledge_FIL :: real
  onboard_scheduled_pledge_release_FIL :: real
  renew_scheduled_pledge_release_FIL :: real
  scheduled_pledge_release_acct :: real
  reward_FIL :: real
  full_reward_for_power_FIL :: real
  termination_burned_FIL :: real

text \<open>The dictionary returned by \<^verbatim>\<open>agent.get_power_at_date\<close>.\<close>

record power_stats =
  day_onboarded_rb_power_pib :: real
  day_onboarded_qa_power_pib :: real
  extended_rb_pib :: real
  extended_qa_pib :: real
  sched_expire_rb_pib :: real
  sched_expire_qa_pib :: real
  terminated_rb_pib :: real
  terminated_qa_pib :: real
  day_onboarded_qa_duration :: int
  extended_qa_duration :: int

text \<open>
  An agent, as the model uses it. The class \<^verbatim>\<open>SPAgent\<close> itself (\<^verbatim>\<open>agents/sp_agent.py\<close>)
  is not among the sources, so its two query methods are carried as fields; the power
  arrays hold the pair (capacity power, deal power) in PiB of each day of \<open>agent_t\<close>.
\<close>

record agent =
  unique_id :: nat
  accounting_df :: "acct_row list"
  agent_t :: "date list"
  onboarded_power :: "(real \<times> real) list"
  renewed_power :: "(real \<times> real) list"
  scheduled_expire_power :: "(real \<times> real) list"
  get_power_at_date :: "date \<Rightarrow> power_stats"
  get_active_qa_power_at_date :: "date \<Rightarrow> real"

text \<open>
  The module \<^verbatim>\<open>locking\<close> is not among the sources either: its four functions are
  parameters. \<open>'oc\<close> is the onboard-ratio callable, \<open>'kw\<close> its keyword arguments.
\<close>

record ('oc, 'kw) locking =
  compute_new_pledge_for_added_power ::
    "real \<Rightarrow> real \<Rightarrow> real \<Rightarrow> real \<Rightarrow> real \<Rightarrow> real \<Rightarrow> 'oc \<Rightarrow> 'kw \<Rightarrow> real"
  compute_day_delta_pledge ::
    "real \<Rightarrow> real \<Rightarrow> real \<Rightarrow> real \<Rightarrow> real \<Rightarrow> real \<Rightarrow> real \<Rightarrow> real \<Rightarrow> real \<Rightarrow> 'oc \<Rightarrow> 'kw \<Rightarrow> real"
  compute_day_locked_rewards :: "real \<Rightarrow> real"
  compute_day_reward_release :: "real \<Rightarrow> real"

text \<open>
  The attributes of \<^verbatim>\<open>FilecoinModel\<close> the engine uses. The constructor replaces a
  missing \<^verbatim>\<open>pledge_onboard_ratio_callable_kwargs_fn\<close> by \<^verbatim>\<open>locking.noop\<close>, so the
  field is always a function.
\<close>

record ('oc, 'kw) filecoin_model =
  filecoin_df :: "day_slice list"
  agents :: "agent list"
  current_day :: int
  lock_target :: real
  daily_burnt_fil :: real
  pledge_onboard_ratio_callable :: 'oc
  pledge_onboard_ratio_callable_kwargs_fn :: "date \<Rightarrow> day_slice \<Rightarrow> real \<Rightarrow> 'kw"

text \<open>
  A loop \<^verbatim>\<open>for agent_info in self.agents\<close> whose body updates the agent and a state
  shared by the iterations; an exception in the body ends the loop.
\<close>

fun for_agents ::
  "('s \<Rightarrow> agent \<Rightarrow> py_error + 's \<times> agent) \<Rightarrow> 's \<Rightarrow> agent list \<Rightarrow> py_error + 's \<times> agent list" where
  "for_agents body s [] = Inr (s, [])"
| "for_agents body s (a # as) =
     (case body s a of
        Inl e \<Rightarrow> Inl e
      | Inr (s', a') \<Rightarrow>
          (case for_agents body s' as of
             Inl e \<Rightarrow> Inl e
           | Inr (s'', as') \<Rightarrow> Inr (s'', a' # as')))"

section \<open>Scheduled pledge release (\<^verbatim>\<open>_update_sched_expire_pledge\<close>)\<close>

text \<open>
  The renewal ratio of one agent (the same lines appear in
  \<^verbatim>\<open>_update_sched_expire_pledge\<close> and in \<^verbatim>\<open>_update_circulating_supply\<close>). The last
  branch divides; with nothing scheduled and a negative renewal the divisor is zero.
\<close>

definition agent_renewal_ratio :: "real \<Rightarrow> real \<Rightarrow> py_error + real" where
  "agent_renewal_ratio agent_day_renewed_qap agent_day_se_qap =
     (if agent_day_se_qap = 0 \<and> agent_day_renewed_qap > 0 then Inr (np_clip 1 0 1)
      else if agent_day_se_qap < 0 \<or> agent_day_renewed_qap = 0 then Inr (np_clip 0 0 1)
      else if agent_day_se_qap = 0 then Inl ZeroDivision
      else Inr (np_clip (agent_day_renewed_qap / agent_day_se_qap) 0 1))"

text \<open>
  The deferred release of a locked amount: the guarded block after each of the two
  \<^verbatim>\<open>+=\<close> on the day's pledge. \<open>upd_own\<close> is the agent's own column for the kind of
  event (onboarding or renewal).
\<close>

definition schedule_release ::
  "bool \<Rightarrow> int \<Rightarrow> int \<Rightarrow> real \<Rightarrow> ((real \<Rightarrow> real) \<Rightarrow> acct_row \<Rightarrow> acct_row)
     \<Rightarrow> day_slice list \<Rightarrow> acct_row list \<Rightarrow> py_error + day_slice list \<times> acct_row list" where
  "schedule_release update_filecoin_df day_idx duration locked upd_own fdf acc =
     (if day_idx + duration < int (length fdf) then
        if update_filecoin_df then
          bind_res (loc_update fdf (day_idx + duration)
                      (scheduled_pledge_release_update (\<lambda>v. v + locked))) (\<lambda>fdf'.
          bind_res (loc_update acc (day_idx + duration) (upd_own (\<lambda>v. v + locked))) (\<lambda>acc'.
          bind_res (loc_update acc' (day_idx + duration)
                      (scheduled_pledge_release_acct_update (\<lambda>v. v + locked))) (\<lambda>acc''.
          Inr (fdf', acc''))))
        else Inr (fdf, acc)
      else Inr (fdf, acc))"

text \<open>The body of the loop over the agents; the state is the frame and \<open>aggregate_rr\<close>.\<close>

definition update_sched_expire_pledge_agent ::
  "('oc, 'kw) locking \<Rightarrow> ('oc, 'kw) filecoin_model \<Rightarrow> bool \<Rightarrow> date \<Rightarrow> int
     \<Rightarrow> real \<Rightarrow> real \<Rightarrow> real \<Rightarrow> real
     \<Rightarrow> day_slice list \<times> real \<Rightarrow> agent \<Rightarrow> py_error + (day_slice list \<times> real) \<times> agent" where
  "update_sched_expire_pledge_agent L m update_filecoin_df date_in day_idx
       total_qa baseline_power day_network_reward_v prev_circ_supply st ag =
     (let fdf = fst st; aggregate_rr = snd st;
          agent_day_power_stats = get_power_at_date ag date_in;
          day_onboarded_qap = day_onboarded_qa_power_pib agent_day_power_stats * PIB;
          day_renewed_qap = extended_qa_pib agent_day_power_stats * PIB
      in
      bind_res (iloc fdf (day_idx - 1)) (\<lambda>prev_row.
      let kwargs = pledge_onboard_ratio_callable_kwargs_fn m date_in prev_row (lock_target m);
          onboards_locked = compute_new_pledge_for_added_power L day_network_reward_v
              prev_circ_supply day_onboarded_qap total_qa baseline_power (lock_target m)
              (pledge_onboard_ratio_callable m) kwargs;
          renews_locked0 = compute_new_pledge_for_added_power L day_network_reward_v
              prev_circ_supply day_renewed_qap total_qa baseline_power (lock_target m)
              (pledge_onboard_ratio_callable m) kwargs
      in
      bind_res (loc (accounting_df ag) day_idx) (\<lambda>arow.
      let original_pledge_v = scheduled_pledge_release_acct arow;
          agent_day_renewed_qap = extended_qa_pib agent_day_power_stats * PIB;
          agent_day_se_qap = sched_expire_qa_pib agent_day_power_stats * PIB
      in
      bind_res (agent_renewal_ratio agent_day_renewed_qap agent_day_se_qap) (\<lambda>agent_rr.
      let original_pledge_for_renew = original_pledge_v * agent_rr;
          renews_locked = max original_pledge_for_renew renews_locked0;
          onboarded_qa_duration = day_onboarded_qa_duration agent_day_power_stats;
          renewed_qa_duration = extended_qa_duration agent_day_power_stats
      in
      bind_res (loc_update (accounting_df ag) day_idx
                  (onboard_pledge_FIL_update (\<lambda>v. v + onboards_locked))) (\<lambda>acc1.
      bind_res (schedule_release update_filecoin_df day_idx onboarded_qa_duration
                  onboards_locked onboard_scheduled_pledge_release_FIL_update fdf acc1)
        (\<lambda>(fdf2, acc2).
      bind_res (loc_update acc2 day_idx
                  (renew_pledge_FIL_update (\<lambda>v. v + renews_locked))) (\<lambda>acc3.
      bind_res (schedule_release update_filecoin_df day_idx renewed_qa_duration
                  renews_locked renew_scheduled_pledge_release_FIL_update fdf2 acc3)
        (\<lambda>(fdf4, acc4).
      bind_res (loc_update fdf4 day_idx
                  (original_pledge_update (\<lambda>v. v + original_pledge_for_renew))) (\<lambda>fdf5.
      Inr ((fdf5, aggregate_rr * agent_rr), ag\<lparr>accounting_df := acc4\<rparr>))))))))))"

definition update_sched_expire_pledge ::
  "('oc, 'kw) locking \<Rightarrow> ('oc, 'kw) filecoin_model \<Rightarrow> date \<Rightarrow> bool
     \<Rightarrow> py_error + ('oc, 'kw) filecoin_model" where
  "update_sched_expire_pledge L m date_in update_filecoin_df =
     bind_res (index0 (\<lambda>r. date r = date_in) (filecoin_df m)) (\<lambda>day_idx.
     bind_res (loc (filecoin_df m) day_idx) (\<lambda>row.
     let total_qa = total_qa_power_eib row * EIB;
         baseline_power = network_baseline row;
         day_network_reward_v = day_network_reward row
     in
     bind_res (loc (filecoin_df m) (day_idx - 1)) (\<lambda>prev.
     let prev_circ_supply = circ_supply prev in
     bind_res (for_agents
                 (update_sched_expire_pledge_agent L m update_filecoin_df date_in day_idx
                    total_qa baseline_power day_network_reward_v prev_circ_supply)
                 (filecoin_df m, 1) (agents m)) (\<lambda>((fdf, aggregate_rr), ags).
     bind_res (loc_update fdf day_idx (renewal_rate_update (\<lambda>_. aggregate_rr))) (\<lambda>fdf'.
     Inr (m\<lparr>filecoin_df := fdf', agents := ags\<rparr>))))))"

section \<open>Power totals (\<^verbatim>\<open>_compute_macro\<close>, \<^verbatim>\<open>_update_power_metrics\<close>)\<close>

text \<open>The dictionary \<^verbatim>\<open>out_dict\<close> of \<^verbatim>\<open>_compute_macro\<close>.\<close>

record day_macro_info =
  info_date :: date
  info_day_onboarded_rbp_pib :: real
  info_day_onboarded_qap_pib :: real
  info_day_renewed_rbp_pib :: real
  info_day_renewed_qap_pib :: real
  info_day_sched_expire_rbp_pib :: real
  info_day_sched_expire_qap_pib :: real
  info_day_terminated_rbp_pib :: real
  info_day_terminated_qap_pib :: real
  info_day_network_rbp_pib :: real
  info_day_network_qap_pib :: real

text \<open>An accumulation \<^verbatim>\<open>total += f(agent)\<close> over the agents, from 0.\<close>

definition accumulate :: "('a \<Rightarrow> real) \<Rightarrow> 'a list \<Rightarrow> real" where
  "accumulate f xs = foldl (\<lambda>total x. total + f x) 0 xs"

definition compute_macro :: "agent list \<Rightarrow> date \<Rightarrow> day_macro_info" where
  "compute_macro ags date_in =
     (let stat = (\<lambda>field. accumulate (\<lambda>ag. field (get_power_at_date ag date_in)) ags);
          total_onboarded_rb_delta = stat day_onboarded_rb_power_pib;
          total_onboarded_qa_delta = stat day_onboarded_qa_power_pib;
          total_renewed_rb_delta = stat extended_rb_pib;
          total_renewed_qa_delta = stat extended_qa_pib;
          total_se_rb_delta = stat sched_expire_rb_pib;
          total_se_qa_delta = stat sched_expire_qa_pib;
          total_terminated_rb_delta = stat terminated_rb_pib;
          total_terminated_qa_delta = stat terminated_qa_pib;
          total_rb_delta = 0 + (total_onboarded_rb_delta + total_renewed_rb_delta
                                  - total_se_rb_delta - total_terminated_rb_delta);
          total_qa_delta = 0 + (total_onboarded_qa_delta + total_renewed_qa_delta
                                  - total_se_qa_delta - total_terminated_qa_delta)
      in \<lparr> info_date = date_in,
           info_day_onboarded_rbp_pib = total_onboarded_rb_delta,
           info_day_onboarded_qap_pib = total_onboarded_qa_delta,
           info_day_renewed_rbp_pib = total_renewed_rb_delta,
           info_day_renewed_qap_pib = total_renewed_qa_delta,
           info_day_sched_expire_rbp_pib = total_se_rb_delta,
           info_day_sched_expire_qap_pib = total_se_qa_delta,
           info_day_terminated_rbp_pib = total_terminated_rb_delta,
           info_day_terminated_qap_pib = total_terminated_qa_delta,
           info_day_network_rbp_pib = total_rb_delta,
           info_day_network_qap_pib = total_qa_delta \<rparr>)"

text \<open>
  \<^verbatim>\<open>_update_power_metrics\<close>: the day's row is assigned first (a label outside the frame
  would enlarge it), then the totals are computed from the previous row.
\<close>

definition update_power_metrics ::
  "('oc, 'kw) filecoin_model \<Rightarrow> day_macro_info \<Rightarrow> int option
     \<Rightarrow> py_error + ('oc, 'kw) filecoin_model" where
  "update_power_metrics m info day_idx_arg =
     (let day_idx = (case day_idx_arg of None \<Rightarrow> current_day m | Some d \<Rightarrow> d);
          fdf = filecoin_df m
      in
      if \<not> (0 \<le> day_idx \<and> day_idx < int (length fdf)) then Inl OutOfLedger
      else
        let row1 = (fdf ! nat day_idx)
              \<lparr> day_onboarded_rbp_pib := info_day_onboarded_rbp_pib info,
                day_onboarded_qap_pib := max (info_day_onboarded_qap_pib info) MIN_VALUE,
                day_renewed_rbp_pib := info_day_renewed_rbp_pib info,
                day_renewed_qap_pib := info_day_renewed_qap_pib info,
                day_sched_expire_rbp_pib := info_day_sched_expire_rbp_pib info,
                day_sched_expire_qap_pib := info_day_sched_expire_qap_pib info,
                day_terminated_rbp_pib := info_day_terminated_rbp_pib info,
                day_terminated_qap_pib := info_day_terminated_qap_pib info,
                day_network_rbp_pib := info_day_network_rbp_pib info,
                day_network_qap_pib := info_day_network_qap_pib info \<rparr>
        in
        bind_res (loc fdf (day_idx - 1)) (\<lambda>prev.
        let row2 = row1
              \<lparr> total_raw_power_eib :=
                  max (day_network_rbp_pib row1 / 1024 + total_raw_power_eib prev) MIN_VALUE,
                total_qa_power_eib :=
                  max (day_network_qap_pib row1 / 1024 + total_qa_power_eib prev) MIN_VALUE \<rparr>
        in Inr (m\<lparr>filecoin_df := fdf[nat day_idx := row2]\<rparr>)))"

section \<open>Circulating supply (\<^verbatim>\<open>_update_circulating_supply\<close>)\<close>

text \<open>
  The body of the loop over the agents; the state is
  (\<open>pledge_delta\<close>, \<open>day_locked_pledge\<close>, \<open>day_renewed_pledge\<close>). The agents are read only.
\<close>

definition update_circulating_supply_agent ::
  "('oc, 'kw) locking \<Rightarrow> ('oc, 'kw) filecoin_model \<Rightarrow> int \<Rightarrow> date
     \<Rightarrow> real \<Rightarrow> real \<Rightarrow> real \<Rightarrow> real
     \<Rightarrow> real \<times> real \<times> real \<Rightarrow> agent \<Rightarrow> py_error + (real \<times> real \<times> real) \<times> agent" where
  "update_circulating_supply_agent L m day_idx current_date
       day_network_reward_v prev_circ_supply network_QAP network_baseline_v st ag =
     (case st of (pledge_delta_v, day_locked_pledge_v, day_renewed_pledge_v) \<Rightarrow>
      bind_res (iloc (accounting_df ag) day_idx) (\<lambda>arow.
      let day_locked_pledge' = day_locked_pledge_v + (onboard_pledge_FIL arow + renew_pledge_FIL arow);
          day_renewed_pledge' = day_renewed_pledge_v + renew_pledge_FIL arow
      in
      bind_res (index0 (\<lambda>d. d = current_date) (agent_t ag)) (\<lambda>ix.
      bind_res (iloc (onboarded_power ag) ix) (\<lambda>onb.
      bind_res (iloc (renewed_power ag) ix) (\<lambda>ren.
      bind_res (iloc (scheduled_expire_power ag) ix) (\<lambda>se.
      let agent_onboarded_qap = snd onb * PIB;
          agent_renewed_qap = snd ren * PIB;
          agent_se_qap = snd se * PIB
      in
      bind_res (agent_renewal_ratio agent_renewed_qap agent_se_qap) (\<lambda>agent_rr.
      bind_res (index0 (\<lambda>r. date_acct r = current_date) (accounting_df ag))
        (\<lambda>agent_accounting_df_idx.
      bind_res (iloc (accounting_df ag) agent_accounting_df_idx) (\<lambda>arow'.
      let agent_scheduled_pledge_release = scheduled_pledge_release_acct arow' in
      bind_res (iloc (filecoin_df m) (day_idx - 1)) (\<lambda>prev_row.
      let kwargs = pledge_onboard_ratio_callable_kwargs_fn m current_date prev_row (lock_target m);
          agent_pledge_delta = compute_day_delta_pledge L day_network_reward_v prev_circ_supply
              agent_onboarded_qap agent_renewed_qap network_QAP network_baseline_v agent_rr
              agent_scheduled_pledge_release (lock_target m)
              (pledge_onboard_ratio_callable m) kwargs
      in Inr ((pledge_delta_v + agent_pledge_delta, day_locked_pledge', day_renewed_pledge'),
              ag)))))))))))"

definition update_circulating_supply ::
  "('oc, 'kw) locking \<Rightarrow> ('oc, 'kw) filecoin_model \<Rightarrow> int option
     \<Rightarrow> py_error + ('oc, 'kw) filecoin_model" where
  "update_circulating_supply L m update_day =
     (let day_idx = (case update_day of None \<Rightarrow> current_day m | Some d \<Rightarrow> d);
          fdf = filecoin_df m
      in
      bind_res (iloc fdf day_idx) (\<lambda>row.
      let current_date = date row;
          network_QAP = total_qa_power_eib row * EIB;
          network_baseline_v = network_baseline row;
          day_network_reward_v = day_network_reward row
      in
      bind_res (iloc fdf (day_idx - 1)) (\<lambda>prev.
      let prev_network_locked_reward = network_locked_reward prev;
          prev_network_locked_pledge = network_locked_pledge prev;
          prev_network_locked = network_locked prev;
          prev_circ_supply = circ_supply prev
      in
      bind_res (for_agents
                  (update_circulating_supply_agent L m day_idx current_date
                     day_network_reward_v prev_circ_supply network_QAP network_baseline_v)
                  (0, 0, 0) (agents m))
        (\<lambda>((pledge_delta_v, day_locked_pledge_v, day_renewed_pledge_v), ags).
      let day_locked_rewards = compute_day_locked_rewards L day_network_reward_v;
          day_reward_release = compute_day_reward_release L prev_network_locked_reward;
          reward_delta_v = day_locked_rewards - day_reward_release
      in
      if day_idx < 0 then Inl OutOfLedger
      else
        let row1 = row
              \<lparr> pledge_delta := pledge_delta_v,
                reward_delta := reward_delta_v,
                day_locked_pledge := day_locked_pledge_v,
                day_renewed_pledge := day_renewed_pledge_v,
                network_locked_pledge := prev_network_locked_pledge + pledge_delta_v,
                network_locked_reward := prev_network_locked_reward + reward_delta_v,
                network_locked := prev_network_locked + pledge_delta_v + reward_delta_v \<rparr>;
            row2 = (if network_gas_burn row1 = 0
                    then row1\<lparr>network_gas_burn := network_gas_burn prev + daily_burnt_fil m\<rparr>
                    else row1);
            circ_supply_v = disbursed_reserve row2 + cum_network_reward row2 + total_vest row2
                - network_locked row2 - network_gas_burn row2 - burn_from_terminations row2
        in Inr (m\<lparr>filecoin_df := fdf[nat day_idx := row2\<lparr>circ_supply := max circ_supply_v 0\<rparr>],
                   agents := ags\<rparr>)))))"

section \<open>Generated quantities and pledge estimate\<close>

definition update_generated_quantities ::
  "('oc, 'kw) filecoin_model \<Rightarrow> int option \<Rightarrow> py_error + ('oc, 'kw) filecoin_model" where
  "update_generated_quantities m update_day =
     (let day_idx = (case update_day of None \<Rightarrow> current_day m | Some d \<Rightarrow> d);
          fdf = filecoin_df m
      in
      bind_res (iloc fdf day_idx) (\<lambda>_.
      bind_res (loc fdf day_idx) (\<lambda>row.
      let day_onboarded_power_QAP = max (day_onboarded_qap_pib row * PIB) MIN_VALUE;
          row1 = row\<lparr>day_pledge_per_QAP :=
                   SECTOR_SIZE * (day_locked_pledge row - day_renewed_pledge row)
                     / day_onboarded_power_QAP\<rparr>;
          network_QAP = max (total_qa_power_eib row1 * EIB) MIN_VALUE
      in Inr (m\<lparr>filecoin_df :=
                  fdf[nat day_idx := row1\<lparr>day_rewards_per_sector :=
                        SECTOR_SIZE * day_network_reward row1 / network_QAP\<rparr>]\<rparr>))))"

definition estimate_pledge_for_qa_power ::
  "('oc, 'kw) locking \<Rightarrow> ('oc, 'kw) filecoin_model \<Rightarrow> date \<Rightarrow> real \<Rightarrow> py_error + real" where
  "estimate_pledge_for_qa_power L m date_in qa_power_pib =
     bind_res (index0 (\<lambda>r. date r = date_in) (filecoin_df m)) (\<lambda>filecoin_df_idx.
     let prev_day_idx = filecoin_df_idx - 1 in
     bind_res (loc (filecoin_df m) prev_day_idx) (\<lambda>prev.
     let prev_circ_supply = circ_supply prev;
         prev_total_qa_power_pib = total_qa_power_eib prev * 1024;
         prev_baseline_power_pib = network_baseline prev / PIB;
         prev_day_network_reward = day_network_reward prev
     in
     if qa_power_pib = 0 then
       Inr (day_pledge_per_QAP prev * (qa_power_pib / SECTOR_SIZE))
     else
       bind_res (iloc (filecoin_df m) prev_day_idx) (\<lambda>prev_row.
       let kwargs = pledge_onboard_ratio_callable_kwargs_fn m date_in prev_row (lock_target m)
       in Inr (compute_new_pledge_for_added_power L prev_day_network_reward prev_circ_supply
                 (qa_power_pib * PIB) (prev_total_qa_power_pib * PIB)
                 (prev_baseline_power_pib * PIB) (lock_target m)
                 (pledge_onboard_ratio_callable m) kwargs))))"

section \<open>Reward distribution (\<^verbatim>\<open>_get_agent_power_proportion\<close>, \<^verbatim>\<open>_update_agents\<close>)\<close>

text \<open>
  The proportions are first cut at 1, then divided by their sum (\<^verbatim>\<open>sum(vec)\<close> adds from
  0, left to right). Both divisions can be by zero when there is an agent: numpy then
  gives \<^verbatim>\<open>inf\<close> or \<^verbatim>\<open>nan\<close>, which the reals do not have, and the model stops there.
\<close>

definition get_agent_power_proportion ::
  "('oc, 'kw) filecoin_model \<Rightarrow> int option \<Rightarrow> py_error + real list \<times> (nat \<rightharpoonup> real)" where
  "get_agent_power_proportion m update_day =
     (let day_idx = (case update_day of None \<Rightarrow> current_day m | Some d \<Rightarrow> d) in
      bind_res (iloc (filecoin_df m) day_idx) (\<lambda>row.
      let date_in = date row;
          total_network_qap = total_qa_power_eib row * EIB
      in
      if total_network_qap = 0 \<and> agents m \<noteq> [] then Inl ZeroDivision
      else
        let agent_power_proportion_vec =
              map (\<lambda>ag. let total_agent_qap = get_active_qa_power_at_date ag date_in * PIB
                        in min (total_agent_qap / total_network_qap) 1) (agents m);
            total = accumulate (\<lambda>p. p) agent_power_proportion_vec
        in
        if total = 0 \<and> agents m \<noteq> [] then Inl ZeroDivision
        else
          let vec = map (\<lambda>p. p / total) agent_power_proportion_vec;
              agentid2power_proportion =
                foldl (\<lambda>d (ag, p). d(unique_id ag \<mapsto> p)) Map.empty (zip (agents m) vec)
          in Inr (vec, agentid2power_proportion)))"

text \<open>
  \<^verbatim>\<open>df.loc[lo:hi, col] += v\<close>: a label slice takes the rows whose label lies in
  \<open>[lo, hi]\<close>, both ends included; bounds outside the index select fewer rows and raise
  nothing.
\<close>

definition loc_slice_update :: "'a list \<Rightarrow> int \<Rightarrow> int \<Rightarrow> ('a \<Rightarrow> 'a) \<Rightarrow> 'a list" where
  "loc_slice_update df lo hi f =
     map (\<lambda>(i, r). if lo \<le> int i \<and> int i \<le> hi then f r else r) (enumerate 0 df)"

text \<open>\<^verbatim>\<open>post_global_step\<close> of \<^verbatim>\<open>agents/roi_agent.py\<close>: \<^verbatim>\<open>pass\<close>.\<close>

definition post_global_step :: "agent \<Rightarrow> agent" where
  "post_global_step ag = ag"

text \<open>
  The body of the loop of \<^verbatim>\<open>_update_agents\<close>; the state is the position \<open>ii\<close> of
  \<^verbatim>\<open>enumerate\<close> and \<open>debug_agent_qap_sum\<close>.
\<close>

definition update_agents_agent ::
  "date \<Rightarrow> real \<Rightarrow> real list \<Rightarrow> nat \<times> real \<Rightarrow> agent \<Rightarrow> py_error + (nat \<times> real) \<times> agent" where
  "update_agents_agent date_in total_day_rewards agent_reward_ratio_vec st ag =
     (let ii = fst st;
          total_agent_qap = get_active_qa_power_at_date ag date_in * PIB;
          debug_agent_qap_sum = snd st + total_agent_qap
      in
      bind_res (iloc agent_reward_ratio_vec (int ii)) (\<lambda>agent_reward_ratio.
      let agent_reward = total_day_rewards * agent_reward_ratio;
          agent_accounting_df = accounting_df ag
      in
      bind_res (index0 (\<lambda>r. date_acct r = date_in) agent_accounting_df) (\<lambda>accounting_df_idx.
      bind_res (loc_update agent_accounting_df accounting_df_idx
                  (reward_FIL_update (\<lambda>v. v + agent_reward * 0.25))) (\<lambda>acc1.
      let acc2 = loc_slice_update acc1 (accounting_df_idx + 1) (accounting_df_idx + 180)
                   (reward_FIL_update (\<lambda>v. v + (agent_reward * 0.75) / 180))
      in
      bind_res (loc_update acc2 accounting_df_idx
                  (full_reward_for_power_FIL_update (\<lambda>v. v + agent_reward))) (\<lambda>acc3.
      Inr ((Suc ii, debug_agent_qap_sum),
           post_global_step (ag\<lparr>accounting_df := acc3\<rparr>)))))))"

definition update_agents ::
  "('oc, 'kw) filecoin_model \<Rightarrow> int option \<Rightarrow> py_error + ('oc, 'kw) filecoin_model" where
  "update_agents m update_day =
     (let day_idx = (case update_day of None \<Rightarrow> current_day m | Some d \<Rightarrow> d) in
      bind_res (iloc (filecoin_df m) day_idx) (\<lambda>row.
      let date_in = date row;
          total_day_rewards = day_network_reward row
      in
      bind_res (get_agent_power_proportion m (Some day_idx)) (\<lambda>(agent_reward_ratio_vec, _).
      bind_res (for_agents (update_agents_agent date_in total_day_rewards agent_reward_ratio_vec)
                  (0, 0) (agents m)) (\<lambda>(_, ags).
      Inr (m\<lparr>agents := ags\<rparr>)))))"

definition zero_agent_rewards :: "('oc, 'kw) filecoin_model \<Rightarrow> ('oc, 'kw) filecoin_model" where
  "zero_agent_rewards m =
     m\<lparr>agents := map (\<lambda>ag. ag\<lparr>accounting_df := map (reward_FIL_update (\<lambda>_. 0)) (accounting_df ag)\<rparr>)
                    (agents m)\<rparr>"

section \<open>Bootstrap of the circulating supply (\<^verbatim>\<open>_fast_forward_to_simulation_start\<close>)\<close>

text \<open>One row of the table returned by \<^verbatim>\<open>data.query_supply_stats\<close>.\<close>

record supply_row =
  supply_date :: date
  burnt_fil :: real
  locked_fil :: real
  circulating_fil :: real

text \<open>
  \<^verbatim>\<open>df.loc[lo:hi, col] = values\<close>, \<open>lo\<close> and \<open>hi\<close> being labels of the frame: the
  number of values must be the number of rows, or ValueError.
\<close>

definition loc_slice_assign ::
  "'a list \<Rightarrow> int \<Rightarrow> int \<Rightarrow> 'v list \<Rightarrow> ('v \<Rightarrow> 'a \<Rightarrow> 'a) \<Rightarrow> py_error + 'a list" where
  "loc_slice_assign df lo hi vals setf =
     (if length vals \<noteq> (if hi < lo then 0 else nat (hi - lo + 1)) then Inl ValueError
      else Inr (map (\<lambda>(i, r). if lo \<le> int i \<and> int i \<le> hi
                               then setf (vals ! nat (int i - lo)) r else r)
                  (enumerate 0 df)))"

text \<open>
  \<^verbatim>\<open>supply_df["burnt_fil"].diff().mean()\<close>: the mean of the successive differences. For
  a table of one row pandas gives \<^verbatim>\<open>nan\<close>, and the model stops there.
\<close>

definition diff_mean :: "real list \<Rightarrow> py_error + real" where
  "diff_mean xs =
     (if length xs \<le> 1 then Inl ZeroDivision
      else Inr (accumulate (\<lambda>(a, b). b - a) (zip xs (tl xs)) / real (length xs - 1)))"

text \<open>One day of the replay loop (\<^verbatim>\<open>for day_idx in range(start_idx+1, end_idx)\<close>).\<close>

definition fast_forward_day ::
  "('oc, 'kw) locking \<Rightarrow> ('oc, 'kw) filecoin_model \<Rightarrow> int
     \<Rightarrow> py_error + ('oc, 'kw) filecoin_model" where
  "fast_forward_day L m day_idx =
     bind_res (loc (filecoin_df m) day_idx) (\<lambda>row.
     let date_in = date row in
     bind_res (update_sched_expire_pledge L m date_in False) (\<lambda>m1.
     bind_res (update_circulating_supply L m1 (Some day_idx)) (\<lambda>m2.
     bind_res (update_generated_quantities m2 (Some day_idx)) (\<lambda>m3.
     update_agents m3 (Some day_idx)))))"

fun fast_forward_days ::
  "('oc, 'kw) locking \<Rightarrow> ('oc, 'kw) filecoin_model \<Rightarrow> int list
     \<Rightarrow> py_error + ('oc, 'kw) filecoin_model" where
  "fast_forward_days L m [] = Inr m"
| "fast_forward_days L m (day_idx # days) =
     (case fast_forward_day L m day_idx of
        Inl e \<Rightarrow> Inl e
      | Inr m' \<Rightarrow> fast_forward_days L m' days)"

text \<open>
  The part of \<^verbatim>\<open>_fast_forward_to_simulation_start\<close> from "initialize the circulating
  supply" on. What precedes it (the replay of the historical power and of the minting
  curves of the package \<^verbatim>\<open>mechafil\<close>) has filled the power and reward columns of the
  frame given here; \<open>final_historical_data_idx\<close> is the last row it filled. The two
  progress messages around the replay loop read the dates of the rows \<open>start_idx + 1\<close> and
  \<open>end_idx - 1\<close> by label.
\<close>

definition fast_forward_circulating_supply ::
  "('oc, 'kw) locking \<Rightarrow> ('oc, 'kw) filecoin_model \<Rightarrow> supply_row list \<Rightarrow> bool \<Rightarrow> bool \<Rightarrow> int
     \<Rightarrow> py_error + ('oc, 'kw) filecoin_model" where
  "fast_forward_circulating_supply L m supply_df compute_cs_from_networkdatastart
       use_historical_gas final_historical_data_idx =
     bind_res (iloc supply_df 0) (\<lambda>s_first.
     bind_res (index0 (\<lambda>r. date r = supply_date s_first) (filecoin_df m)) (\<lambda>start_idx.
     bind_res (iloc supply_df (- 1)) (\<lambda>s_last.
     bind_res (index0 (\<lambda>r. date r = supply_date s_last) (filecoin_df m)) (\<lambda>end_idx.
     let fdf0 = map (\<lambda>r. r\<lparr> disbursed_reserve := 17066618961773411890063046 / 10 ^ 18,
                            network_gas_burn := 0,
                            day_locked_pledge := 0,
                            day_renewed_pledge := 0,
                            network_locked_pledge := 0,
                            network_locked_reward := 0,
                            original_pledge := 0,
                            renewal_rate := 0 \<rparr>) (filecoin_df m)
     in
     bind_res (diff_mean (map burnt_fil supply_df)) (\<lambda>daily_burnt.
     if compute_cs_from_networkdatastart then
       bind_res (if use_historical_gas
                 then loc_slice_assign fdf0 start_idx end_idx (map burnt_fil supply_df)
                        (\<lambda>v. network_gas_burn_update (\<lambda>_. v))
                 else Inr fdf0) (\<lambda>fdf1.
       bind_res (iloc supply_df start_idx) (\<lambda>s_zero.
       let locked_fil_zero = locked_fil s_zero in
       bind_res (loc_update fdf1 start_idx
                   (\<lambda>r. r\<lparr> network_locked_pledge := locked_fil_zero / 2,
                           network_locked_reward := locked_fil_zero / 2,
                           network_locked := locked_fil_zero,
                           circ_supply := circulating_fil s_zero \<rparr>)) (\<lambda>fdf2.
       bind_res (loc fdf2 (start_idx + 1)) (\<lambda>_.
       bind_res (fast_forward_days L (m\<lparr>filecoin_df := fdf2, daily_burnt_fil := daily_burnt\<rparr>)
                   [start_idx + 1 .. end_idx - 1]) (\<lambda>m'.
       bind_res (loc (filecoin_df m') (end_idx - 1)) (\<lambda>_.
       Inr m'))))))
     else
       bind_res (loc_slice_assign fdf0 start_idx end_idx (map locked_fil supply_df)
                   (\<lambda>v. network_locked_update (\<lambda>_. v))) (\<lambda>fdf1.
       bind_res (loc_slice_assign fdf1 start_idx end_idx (map burnt_fil supply_df)
                   (\<lambda>v. network_gas_burn_update (\<lambda>_. v))) (\<lambda>fdf2.
       let fdf3 = loc_slice_update fdf2 start_idx end_idx
                    (\<lambda>r. r\<lparr>circ_supply := disbursed_reserve r + cum_network_reward r
                              + total_vest r - network_locked r - network_gas_burn r\<rparr>)
       in
       bind_res (loc fdf3 final_historical_data_idx) (\<lambda>fin.
       let locked_fil_zero = network_locked fin in
       if \<not> (0 \<le> final_historical_data_idx + 1
             \<and> final_historical_data_idx + 1 < int (length fdf3)) then Inl OutOfLedger
       else
         bind_res (loc_update fdf3 (final_historical_data_idx + 1)
                     (\<lambda>r. r\<lparr> network_locked_pledge := locked_fil_zero / 2,
                             network_locked_reward := locked_fil_zero / 2,
                             network_locked := locked_fil_zero \<rparr>)) (\<lambda>fdf4.
         Inr (m\<lparr>filecoin_df := fdf4, daily_burnt_fil := daily_burnt\<rparr>))))))))))"

text \<open>
  The end of the constructor: \<^verbatim>\<open>self._fast_forward_to_simulation_start()\<close> followed by
  \<^verbatim>\<open>self._zero_agent_rewards()\<close>.
\<close>

definition init_fast_forward_and_zero ::
  "('oc, 'kw) locking \<Rightarrow> ('oc, 'kw) filecoin_model \<Rightarrow> supply_row list \<Rightarrow> bool \<Rightarrow> bool \<Rightarrow> int
     \<Rightarrow> py_error + ('oc, 'kw) filecoin_model" where
  "init_fast_forward_and_zero L m supply_df compute_cs_from_networkdatastart
       use_historical_gas final_historical_data_idx =
     bind_res (fast_forward_circulating_supply L m supply_df compute_cs_from_networkdatastart
                 use_historical_gas final_historical_data_idx) (\<lambda>m'.
     Inr (zero_agent_rewards m'))"

section \<open>A small scenario\<close>

text \<open>
  A ledger of three days and two agents holding 70\% and 30\% of one EiB, with simple
  stand-ins for the functions of \<^verbatim>\<open>locking\<close>. The theorems below are instantiated on it.
\<close>

definition demo_row :: "date \<Rightarrow> day_slice" where
  "demo_row d =
     \<lparr> date = d, total_raw_power_eib = 1, total_qa_power_eib = 1,
       day_onboarded_rbp_pib = 0, day_onboarded_qap_pib = 0,
       day_renewed_rbp_pib = 0, day_renewed_qap_pib = 0,
       day_sched_expire_rbp_pib = 0, day_sched_expire_qap_pib = 0,
       day_terminated_rbp_pib = 0, day_terminated_qap_pib = 0,
       day_network_rbp_pib = 0, day_network_qap_pib = 0,
       network_baseline = EIB, day_network_reward = 100, cum_network_reward = 1000,
       circ_supply = 500, network_locked = 100, network_locked_pledge = 60,
       network_locked_reward = 40, network_gas_burn = 0, disbursed_reserve = 10,
       total_vest = 20, burn_from_terminations = 0, scheduled_pledge_release = 0,
       day_locked_pledge = 0, day_renewed_pledge = 0, pledge_delta = 0, reward_delta = 0,
       original_pledge = 0, renewal_rate = 0, day_pledge_per_QAP = 7,
       day_rewards_per_sector = 0 \<rparr>"

definition demo_acct :: "date \<Rightarrow> acct_row" where
  "demo_acct d =
     \<lparr> date_acct = d, onboard_pledge_FIL = 0, renew_pledge_FIL = 0,
       onboard_scheduled_pledge_release_FIL = 0, renew_scheduled_pledge_release_FIL = 0,
       scheduled_pledge_release_acct = 8, reward_FIL = 0, full_reward_for_power_FIL = 0,
       termination_burned_FIL = 0 \<rparr>"

definition demo_stats :: power_stats where
  "demo_stats =
     \<lparr> day_onboarded_rb_power_pib = 2, day_onboarded_qa_power_pib = 2,
       extended_rb_pib = 1, extended_qa_pib = 1,
       sched_expire_rb_pib = 2, sched_expire_qa_pib = 2,
       terminated_rb_pib = 0, terminated_qa_pib = 0,
       day_onboarded_qa_duration = 1, extended_qa_duration = 5 \<rparr>"

definition demo_agent :: "nat \<Rightarrow> real \<Rightarrow> agent" where
  "demo_agent i p =
     \<lparr> unique_id = i, accounting_df = map demo_acct [0, 1, 2], agent_t = [0, 1, 2],
       onboarded_power = [(2, 2), (2, 2), (2, 2)],
       renewed_power = [(1, 1), (1, 1), (1, 1)],
       scheduled_expire_power = [(2, 2), (2, 2), (2, 2)],
       get_power_at_date = (\<lambda>_. demo_stats),
       get_active_qa_power_at_date = (\<lambda>_. p) \<rparr>"

definition demo_locking :: "(unit, unit) locking" where
  "demo_locking =
     \<lparr> compute_new_pledge_for_added_power = (\<lambda>r cs added total base lt oc kw. added / PIB),
       compute_day_delta_pledge =
         (\<lambda>r cs onb ren total base rr rel lt oc kw. (onb + ren) / PIB - rel * (1 - rr)),
       compute_day_locked_rewards = (\<lambda>r. 3 * r / 4),
       compute_day_reward_release = (\<lambda>l. l / 180) \<rparr>"

definition demo_model :: "(unit, unit) filecoin_model" where
  "demo_model =
     \<lparr> filecoin_df = map demo_row [0, 1, 2],
       agents = [demo_agent 0 (7 * 1024 / 10), demo_agent 1 (3 * 1024 / 10)],
       current_day = 1, lock_target = 3 / 10, daily_burnt_fil = 1,
       pledge_onboard_ratio_callable = (),
       pledge_onboard_ratio_callable_kwargs_fn = (\<lambda>_ _ _. ()) \<rparr>"

text \<open>
  An agent whose sectors of the day have the given durations (onboarded, renewed). The
  ledger has three days, so from day 1 a duration of 2 or more ends beyond it.
\<close>

definition demo_agent_dur :: "int \<Rightarrow> int \<Rightarrow> agent" where
  "demo_agent_dur d_on d_ren =
     (demo_agent 2 0)\<lparr>get_power_at_date :=
        (\<lambda>_. demo_stats\<lparr>day_onboarded_qa_duration := d_on, extended_qa_duration := d_ren\<rparr>)\<rparr>"

text \<open>
  A network of one agent that terminates 2048 PiB on a day, twice the total power of the
  previous day.
\<close>

definition cx_stats :: power_stats where
  "cx_stats =
     \<lparr> day_onboarded_rb_power_pib = 0, day_onboarded_qa_power_pib = 0,
       extended_rb_pib = 0, extended_qa_pib = 0,
       sched_expire_rb_pib = 0, sched_expire_qa_pib = 0,
       terminated_rb_pib = 2048, terminated_qa_pib = 2048,
       day_onboarded_qa_duration = 360, extended_qa_duration = 360 \<rparr>"

definition cx_power_model :: "(unit, unit) filecoin_model" where
  "cx_power_model =
     demo_model\<lparr>agents := [(demo_agent 0 1024)\<lparr>get_power_at_date := (\<lambda>_. cx_stats)\<rparr>]\<rparr>"



text \<open>
  The two agents with accounting ledgers of 200 days, long enough for the 180 installments
  of a reward of day 1.
\<close>

definition long_agent :: "nat \<Rightarrow> real \<Rightarrow> agent" where
  "long_agent i p = (demo_agent i p)\<lparr>accounting_df := map (\<lambda>d. demo_acct (int d)) [0 ..< 200]\<rparr>"

definition long_model :: "(unit, unit) filecoin_model" where
  "long_model = demo_model\<lparr>agents := [long_agent 0 (7 * 1024 / 10), long_agent 1 (3 * 1024 / 10)]\<rparr>"

text \<open>
  The historical supply table of the three days: 100 FIL locked, 500 FIL circulating, and a
  cumulative burn that grows by 1 FIL a day.
\<close>

definition demo_supply :: "supply_row list" where
  "demo_supply = map (\<lambda>d. \<lparr> supply_date = d, burnt_fil = of_int d, locked_fil = 100,
                              circulating_fil = 500 \<rparr>) [0, 1, 2]"

section \<open>Basic facts\<close>

lemmas demo_defs =
  demo_row_def demo_acct_def demo_stats_def demo_agent_def demo_locking_def demo_model_def
  demo_agent_dur_def

lemmas frame_defs =
  loc_def iloc_def loc_update_def index0_def bind_res_def Let_def np_clip_def

lemma bind_res_Inl [simp]: "bind_res (Inl e) f = Inl e"
  by (simp add: bind_res_def)

lemma bind_res_Inr [simp]: "bind_res (Inr x) f = f x"
  by (simp add: bind_res_def)

lemma bind_res_InrE:
  assumes "bind_res r f = Inr y"
  obtains x where "r = Inr x" and "f x = Inr y"
  using assms by (cases r) (simp_all add: bind_res_def)

lemma loc_Inr_iff: "loc df i = Inr x \<longleftrightarrow> 0 \<le> i \<and> i < int (length df) \<and> x = df ! nat i"
  by (auto simp: loc_def)


lemma iloc_InrD: "iloc df i = Inr x \<Longrightarrow> i < int (length df)"
  by (auto simp: iloc_def Let_def split: if_splits)

lemma loc_update_Inr_iff:
  "loc_update df i f = Inr df' \<longleftrightarrow>
     0 \<le> i \<and> i < int (length df) \<and> df' = df[nat i := f (df ! nat i)]"
  by (auto simp: loc_update_def)

section \<open>Circulating supply\<close>

text \<open>
  Claim C5. After the supply update of a day, the circulating supply recorded for the day
  is \<open>disbursed_reserve + cum_network_reward + total_vest - network_locked -
  network_gas_burn - burn_from_terminations\<close> of that day's row, floored at zero; so it is
  never negative.
\<close>

theorem circ_supply_floored:
  assumes run: "update_circulating_supply L m update_day = Inr m'"
    and day: "day_idx = (case update_day of None \<Rightarrow> current_day m | Some d \<Rightarrow> d)"
  shows "circ_supply (filecoin_df m' ! nat day_idx) =
           max (disbursed_reserve (filecoin_df m' ! nat day_idx)
                + cum_network_reward (filecoin_df m' ! nat day_idx)
                + total_vest (filecoin_df m' ! nat day_idx)
                - network_locked (filecoin_df m' ! nat day_idx)
                - network_gas_burn (filecoin_df m' ! nat day_idx)
                - burn_from_terminations (filecoin_df m' ! nat day_idx)) 0
         \<and> 0 \<le> circ_supply (filecoin_df m' ! nat day_idx)"
proof -
  from run obtain row where row: "iloc (filecoin_df m) day_idx = Inr row"
    unfolding update_circulating_supply_def Let_def day[symmetric]
    by (elim bind_res_InrE)
  have lt: "day_idx < int (length (filecoin_df m))" using row by (rule iloc_InrD)
  from run row have nonneg: "0 \<le> day_idx"
    unfolding update_circulating_supply_def Let_def day[symmetric]
    by (auto elim!: bind_res_InrE split: if_splits prod.splits)
  from run row lt nonneg show ?thesis
    unfolding update_circulating_supply_def Let_def day[symmetric]
    by (auto elim!: bind_res_InrE split: if_splits prod.splits)
qed

theorem circ_supply_floored_witness:
  "\<exists>m'. update_circulating_supply demo_locking demo_model None = Inr m'
        \<and> circ_supply (filecoin_df m' ! 1) = 7706 / 9
        \<and> 0 \<le> circ_supply (filecoin_df m' ! 1)"
proof -
  have "\<exists>m'. update_circulating_supply demo_locking demo_model None = Inr m'
             \<and> circ_supply (filecoin_df m' ! 1) = 7706 / 9"
    by (simp add: update_circulating_supply_def update_circulating_supply_agent_def
          agent_renewal_ratio_def demo_defs frame_defs PIB_def EIB_def)
  then obtain m' where run: "update_circulating_supply demo_locking demo_model None = Inr m'"
    and val: "circ_supply (filecoin_df m' ! 1) = 7706 / 9" by blast
  have "current_day demo_model = 1" by (simp add: demo_model_def)
  with circ_supply_floored [OF run, of "current_day demo_model"]
  have "0 \<le> circ_supply (filecoin_df m' ! 1)" by simp
  with run val show ?thesis by blast
qed

lemma first_index_SomeD:
  "first_index P xs = Some i \<Longrightarrow> i < length xs \<and> P (xs ! i)"
proof (induction xs arbitrary: i)
  case Nil
  then show ?case by simp
next
  case (Cons x xs)
  then show ?case by (auto split: if_splits)
qed

lemma index0_InrD:
  "index0 P df = Inr i \<Longrightarrow> 0 \<le> i \<and> i < int (length df) \<and> P (df ! nat i)"
  by (auto simp: index0_def split: option.splits dest: first_index_SomeD)

section \<open>Pledge estimate\<close>

text \<open>
  Claim C8. For a date of the ledger that has a previous day, the pledge estimate for an
  added quality-adjusted power of zero is the previous day's pledge rate
  \<open>day_pledge_per_QAP\<close> times \<open>0 / SECTOR_SIZE\<close>, that is zero, whatever the pledge
  formula of \<^verbatim>\<open>locking\<close> is: the formula is not evaluated.
\<close>

theorem estimate_pledge_zero_power:
  assumes idx: "index0 (\<lambda>r. date r = date_in) (filecoin_df m) = Inr idx"
    and prev: "1 \<le> idx"
  shows "estimate_pledge_for_qa_power L m date_in 0 =
           Inr (day_pledge_per_QAP (filecoin_df m ! nat (idx - 1)) * (0 / SECTOR_SIZE))
         \<and> estimate_pledge_for_qa_power L m date_in 0 = Inr 0"
proof -
  from index0_InrD [OF idx] have "idx < int (length (filecoin_df m))" by simp
  with prev have "loc (filecoin_df m) (idx - 1) = Inr (filecoin_df m ! nat (idx - 1))"
    by (simp add: loc_def)
  then show ?thesis
    by (simp add: estimate_pledge_for_qa_power_def idx Let_def)
qed

theorem estimate_pledge_zero_power_witness:
  "index0 (\<lambda>r. date r = 1) (filecoin_df demo_model) = Inr 1 \<and> (1::int) \<le> 1
   \<and> estimate_pledge_for_qa_power demo_locking demo_model 1 0 = Inr 0
   \<and> estimate_pledge_for_qa_power demo_locking demo_model 1 1 = Inr 1"
proof -
  have i: "index0 (\<lambda>r. date r = 1) (filecoin_df demo_model) = Inr 1"
    by (simp add: index0_def demo_model_def demo_row_def)
  have nz: "estimate_pledge_for_qa_power demo_locking demo_model 1 1 = Inr 1"
    by (simp add: estimate_pledge_for_qa_power_def demo_defs frame_defs PIB_def)
  from estimate_pledge_zero_power [OF i, of demo_locking] i nz show ?thesis by simp
qed

section \<open>Renewal ratio and scheduled pledge release\<close>

lemma bind_res_eq_Inr: "bind_res r f = Inr y \<longleftrightarrow> (\<exists>x. r = Inr x \<and> f x = Inr y)"
  by (cases r) simp_all

lemma for_agents_length:
  "for_agents body s ags = Inr (s', ags') \<Longrightarrow> length ags' = length ags"
proof (induction ags arbitrary: s s' ags')
  case Nil
  then show ?case by simp
next
  case (Cons a ags)
  then show ?case by (auto split: sum.splits prod.splits)
qed

lemma schedule_release_Inr:
  assumes "schedule_release upd day_idx duration locked upd_own fdf acc = Inr (fdf', acc')"
  shows "if day_idx + duration < int (length fdf) \<and> upd
         then 0 \<le> day_idx + duration \<and> day_idx + duration < int (length acc)
              \<and> fdf' = fdf[nat (day_idx + duration) :=
                         scheduled_pledge_release_update (\<lambda>v. v + locked)
                           (fdf ! nat (day_idx + duration))]
              \<and> acc' = acc[nat (day_idx + duration) :=
                         scheduled_pledge_release_acct_update (\<lambda>v. v + locked)
                           (upd_own (\<lambda>v. v + locked) (acc ! nat (day_idx + duration)))]
         else fdf' = fdf \<and> acc' = acc"
  using assms unfolding schedule_release_def
  by (auto simp: loc_update_Inr_iff bind_res_eq_Inr split: if_splits)

lemma sched_body_rr:
  assumes run: "update_sched_expire_pledge_agent L m upd date_in day_idx
                  total_qa baseline_power dnr pcs (fdf, rr) ag = Inr ((fdf', rr'), ag')"
  shows "\<exists>agent_rr.
           agent_renewal_ratio (extended_qa_pib (get_power_at_date ag date_in) * PIB)
             (sched_expire_qa_pib (get_power_at_date ag date_in) * PIB) = Inr agent_rr
           \<and> rr' = rr * agent_rr"
  using run unfolding update_sched_expire_pledge_agent_def Let_def
  by (clarsimp simp: bind_res_eq_Inr split: prod.splits)

lemma sched_body_result:
  assumes run: "update_sched_expire_pledge_agent L m upd date_in day_idx
                  total_qa baseline_power dnr pcs (fdf, rr) ag = Inr ((fdf', rr'), ag')"
  shows "\<exists>agent_rr ol rl fdf2 acc2 fdf4 acc4.
           agent_renewal_ratio (extended_qa_pib (get_power_at_date ag date_in) * PIB)
             (sched_expire_qa_pib (get_power_at_date ag date_in) * PIB) = Inr agent_rr
           \<and> rr' = rr * agent_rr
           \<and> 0 \<le> day_idx \<and> day_idx < int (length (accounting_df ag))
           \<and> scheduled_pledge_release_acct (accounting_df ag ! nat day_idx) * agent_rr \<le> rl
           \<and> schedule_release upd day_idx
                (day_onboarded_qa_duration (get_power_at_date ag date_in)) ol
                onboard_scheduled_pledge_release_FIL_update fdf
                ((accounting_df ag)[nat day_idx :=
                   onboard_pledge_FIL_update (\<lambda>v. v + ol) (accounting_df ag ! nat day_idx)])
               = Inr (fdf2, acc2)
           \<and> day_idx < int (length acc2)
           \<and> schedule_release upd day_idx
                (extended_qa_duration (get_power_at_date ag date_in)) rl
                renew_scheduled_pledge_release_FIL_update fdf2
                (acc2[nat day_idx := renew_pledge_FIL_update (\<lambda>v. v + rl) (acc2 ! nat day_idx)])
               = Inr (fdf4, acc4)
           \<and> day_idx < int (length fdf4)
           \<and> fdf' = fdf4[nat day_idx := original_pledge_update
                 (\<lambda>v. v + scheduled_pledge_release_acct (accounting_df ag ! nat day_idx) * agent_rr)
                 (fdf4 ! nat day_idx)]
           \<and> ag' = ag\<lparr>accounting_df := acc4\<rparr>"
  using run unfolding update_sched_expire_pledge_agent_def Let_def
  apply (clarsimp simp: bind_res_eq_Inr loc_update_Inr_iff loc_Inr_iff split: prod.splits)
  apply (intro exI conjI)
            prefer 2
            apply assumption
           prefer 2
           apply assumption
          apply simp_all
  done

lemma agent_renewal_ratio_cases:
  assumes "agent_renewal_ratio (renewed * PIB) (se * PIB) = Inr x"
  shows "0 \<le> x \<and> x \<le> 1
         \<and> (se = 0 \<and> 0 < renewed \<longrightarrow> x = 1)
         \<and> (se < 0 \<or> renewed = 0 \<longrightarrow> x = 0)
         \<and> (0 < se \<and> renewed \<noteq> 0 \<longrightarrow> x = min 1 (max 0 (renewed / se)))"
proof -
  have P: "0 < PIB" by (simp add: PIB_def)
  then have s: "se * PIB = 0 \<longleftrightarrow> se = 0" "se * PIB < 0 \<longleftrightarrow> se < 0"
    "0 < renewed * PIB \<longleftrightarrow> 0 < renewed" "renewed * PIB = 0 \<longleftrightarrow> renewed = 0"
    by (simp_all add: mult_less_0_iff zero_less_mult_iff)
  have d: "renewed * PIB / (se * PIB) = renewed / se" using P by simp
  from assms show ?thesis
    unfolding agent_renewal_ratio_def s d np_clip_def
    by (auto split: if_splits)
qed

lemma agent_renewal_ratio_total:
  "0 \<le> renewed \<Longrightarrow> \<exists>x. agent_renewal_ratio renewed se = Inr x"
  by (auto simp: agent_renewal_ratio_def)

lemma sched_loop_rr:
  assumes "for_agents (update_sched_expire_pledge_agent L m upd date_in day_idx
                         total_qa baseline_power dnr pcs) (fdf, rr) ags = Inr ((fdf', rr'), ags')"
  shows "\<exists>rs. list_all2 (\<lambda>ag x. agent_renewal_ratio
                      (extended_qa_pib (get_power_at_date ag date_in) * PIB)
                      (sched_expire_qa_pib (get_power_at_date ag date_in) * PIB) = Inr x) ags rs
              \<and> rr' = rr * prod_list rs"
  using assms
proof (induction ags arbitrary: fdf rr fdf' rr' ags')
  case Nil
  then show ?case by simp
next
  case (Cons a ags)
  from Cons.prems obtain f1 r1 a1 as1 where
    b: "update_sched_expire_pledge_agent L m upd date_in day_idx
          total_qa baseline_power dnr pcs (fdf, rr) a = Inr ((f1, r1), a1)"
    and r: "for_agents (update_sched_expire_pledge_agent L m upd date_in day_idx
                         total_qa baseline_power dnr pcs) (f1, r1) ags = Inr ((fdf', rr'), as1)"
    by (auto split: sum.splits prod.splits)
  from sched_body_rr [OF b] obtain x where
    x: "agent_renewal_ratio (extended_qa_pib (get_power_at_date a date_in) * PIB)
          (sched_expire_qa_pib (get_power_at_date a date_in) * PIB) = Inr x"
    and r1: "r1 = rr * x" by blast
  from Cons.IH [OF r] obtain rs where
    rs: "list_all2 (\<lambda>ag x. agent_renewal_ratio
                      (extended_qa_pib (get_power_at_date ag date_in) * PIB)
                      (sched_expire_qa_pib (get_power_at_date ag date_in) * PIB) = Inr x) ags rs"
    and rr': "rr' = r1 * prod_list rs" by blast
  have "list_all2 (\<lambda>ag x. agent_renewal_ratio
                      (extended_qa_pib (get_power_at_date ag date_in) * PIB)
                      (sched_expire_qa_pib (get_power_at_date ag date_in) * PIB) = Inr x)
          (a # ags) (x # rs)"
    using x rs by simp
  moreover have "rr' = rr * prod_list (x # rs)" using rr' r1 by simp
  ultimately show ?case by blast
qed

lemma sched_expire_result:
  assumes run: "update_sched_expire_pledge L m date_in upd = Inr m'"
  shows "\<exists>day_idx fdf1 rr.
           index0 (\<lambda>r. date r = date_in) (filecoin_df m) = Inr day_idx
           \<and> 1 \<le> day_idx \<and> day_idx < int (length (filecoin_df m))
           \<and> for_agents (update_sched_expire_pledge_agent L m upd date_in day_idx
                 (total_qa_power_eib (filecoin_df m ! nat day_idx) * EIB)
                 (network_baseline (filecoin_df m ! nat day_idx))
                 (day_network_reward (filecoin_df m ! nat day_idx))
                 (circ_supply (filecoin_df m ! nat (day_idx - 1))))
               (filecoin_df m, 1) (agents m) = Inr ((fdf1, rr), agents m')
           \<and> day_idx < int (length fdf1)
           \<and> filecoin_df m' = fdf1[nat day_idx := renewal_rate_update (\<lambda>_. rr) (fdf1 ! nat day_idx)]"
  using run unfolding update_sched_expire_pledge_def Let_def
  by (clarsimp simp: bind_res_eq_Inr loc_update_Inr_iff loc_Inr_iff split: prod.splits)

text \<open>
  Claim C2. In the update of the scheduled pledge release of a day, the renewal ratio of
  each agent is its renewed quality-adjusted power divided by its scheduled-to-expire
  quality-adjusted power, clamped to \<open>[0, 1]\<close>; it is 1 when nothing was scheduled to expire
  and the renewed power is positive, and 0 when the scheduled power is negative or the
  renewed power is zero. The renewal rate recorded for the day in the network ledger is
  the product of the agents' ratios.
\<close>

theorem renewal_ratio_and_rate:
  assumes run: "update_sched_expire_pledge L m date_in upd = Inr m'"
    and idx: "index0 (\<lambda>r. date r = date_in) (filecoin_df m) = Inr day_idx"
  shows "\<exists>rs. length rs = length (agents m)
           \<and> renewal_rate (filecoin_df m' ! nat day_idx) = prod_list rs
           \<and> (\<forall>i < length (agents m).
                 let renewed = extended_qa_pib (get_power_at_date (agents m ! i) date_in);
                     se = sched_expire_qa_pib (get_power_at_date (agents m ! i) date_in)
                 in agent_renewal_ratio (renewed * PIB) (se * PIB) = Inr (rs ! i)
                    \<and> 0 \<le> rs ! i \<and> rs ! i \<le> 1
                    \<and> (se = 0 \<and> 0 < renewed \<longrightarrow> rs ! i = 1)
                    \<and> (se < 0 \<or> renewed = 0 \<longrightarrow> rs ! i = 0)
                    \<and> (0 < se \<and> renewed \<noteq> 0 \<longrightarrow> rs ! i = min 1 (max 0 (renewed / se))))"
proof -
  from sched_expire_result [OF run] idx obtain fdf1 rr where
    loop: "for_agents (update_sched_expire_pledge_agent L m upd date_in day_idx
                 (total_qa_power_eib (filecoin_df m ! nat day_idx) * EIB)
                 (network_baseline (filecoin_df m ! nat day_idx))
                 (day_network_reward (filecoin_df m ! nat day_idx))
                 (circ_supply (filecoin_df m ! nat (day_idx - 1))))
               (filecoin_df m, 1) (agents m) = Inr ((fdf1, rr), agents m')"
    and rng: "1 \<le> day_idx" "day_idx < int (length fdf1)"
    and res: "filecoin_df m' = fdf1[nat day_idx := renewal_rate_update (\<lambda>_. rr) (fdf1 ! nat day_idx)]"
    by auto
  from sched_loop_rr [OF loop] obtain rs where
    rs: "list_all2 (\<lambda>ag x. agent_renewal_ratio
                      (extended_qa_pib (get_power_at_date ag date_in) * PIB)
                      (sched_expire_qa_pib (get_power_at_date ag date_in) * PIB) = Inr x)
           (agents m) rs"
    and rr: "rr = 1 * prod_list rs" by blast
  have len: "length rs = length (agents m)" using rs by (simp add: list_all2_lengthD)
  have rate: "renewal_rate (filecoin_df m' ! nat day_idx) = prod_list rs"
    using res rng rr by simp
  have each: "agent_renewal_ratio
                (extended_qa_pib (get_power_at_date (agents m ! i) date_in) * PIB)
                (sched_expire_qa_pib (get_power_at_date (agents m ! i) date_in) * PIB)
              = Inr (rs ! i)" if "i < length (agents m)" for i
    using rs that by (simp add: list_all2_conv_all_nth)
  show ?thesis
    using len rate each agent_renewal_ratio_cases [OF each]
    by (intro exI [of _ rs]) (simp add: Let_def)
qed

theorem renewal_ratio_and_rate_witness:
  "\<exists>m'. update_sched_expire_pledge demo_locking demo_model 1 True = Inr m'
        \<and> index0 (\<lambda>r. date r = 1) (filecoin_df demo_model) = Inr 1
        \<and> renewal_rate (filecoin_df m' ! 1) = 1 / 4
        \<and> (\<exists>rs. length rs = 2 \<and> rs ! 0 = 1 / 2 \<and> rs ! 1 = 1 / 2
                 \<and> renewal_rate (filecoin_df m' ! 1) = prod_list rs)"
proof -
  have "\<exists>m'. update_sched_expire_pledge demo_locking demo_model 1 True = Inr m'
             \<and> renewal_rate (filecoin_df m' ! 1) = 1 / 4"
    by (simp add: update_sched_expire_pledge_def update_sched_expire_pledge_agent_def
          schedule_release_def agent_renewal_ratio_def demo_defs frame_defs PIB_def EIB_def)
  then obtain m' where run: "update_sched_expire_pledge demo_locking demo_model 1 True = Inr m'"
    and val: "renewal_rate (filecoin_df m' ! 1) = 1 / 4" by blast
  have i: "index0 (\<lambda>r. date r = 1) (filecoin_df demo_model) = Inr 1"
    by (simp add: index0_def demo_model_def demo_row_def)
  from renewal_ratio_and_rate [OF run i] obtain rs where
    len: "length rs = length (agents demo_model)"
    and rate: "renewal_rate (filecoin_df m' ! nat 1) = prod_list rs"
    and each: "\<forall>i < length (agents demo_model).
                 let renewed = extended_qa_pib (get_power_at_date (agents demo_model ! i) 1);
                     se = sched_expire_qa_pib (get_power_at_date (agents demo_model ! i) 1)
                 in agent_renewal_ratio (renewed * PIB) (se * PIB) = Inr (rs ! i)
                    \<and> 0 \<le> rs ! i \<and> rs ! i \<le> 1
                    \<and> (se = 0 \<and> 0 < renewed \<longrightarrow> rs ! i = 1)
                    \<and> (se < 0 \<or> renewed = 0 \<longrightarrow> rs ! i = 0)
                    \<and> (0 < se \<and> renewed \<noteq> 0 \<longrightarrow> rs ! i = min 1 (max 0 (renewed / se)))"
    by blast
  have l2: "length rs = 2" using len by (simp add: demo_model_def)
  have "rs ! 0 = 1 / 2" using each [rule_format, of 0]
    by (simp add: demo_model_def demo_agent_def demo_stats_def Let_def)
  moreover have "rs ! 1 = 1 / 2" using each [rule_format, of 1]
    by (simp add: demo_model_def demo_agent_def demo_stats_def Let_def)
  ultimately show ?thesis using run i val l2 rate by auto
qed

lemma for_agents_nth:
  assumes "for_agents body s ags = Inr (s', ags')" and "I s"
    and "\<And>t a t' a'. I t \<Longrightarrow> body t a = Inr (t', a') \<Longrightarrow> I t'"
    and "i < length ags"
  shows "\<exists>t t'. I t \<and> body t (ags ! i) = Inr (t', ags' ! i)"
  using assms
proof (induction ags arbitrary: s s' ags' i)
  case Nil
  then show ?case by simp
next
  case (Cons a ags)
  from Cons.prems(1) obtain s1 a1 as2 where
    b: "body s a = Inr (s1, a1)" and r: "for_agents body s1 ags = Inr (s', as2)"
    and e: "ags' = a1 # as2"
    by (auto split: sum.splits prod.splits)
  show ?case
  proof (cases i)
    case 0
    with b e Cons.prems(2) show ?thesis by auto
  next
    case (Suc j)
    have I1: "I s1" using Cons.prems(3) [OF Cons.prems(2) b] .
    have j: "j < length ags" using Cons.prems(4) Suc by simp
    from Cons.IH [OF r I1 Cons.prems(3) j] Suc e show ?thesis by simp
  qed
qed

lemma for_agents_invariant:
  assumes "for_agents body s ags = Inr (s', ags')" and "I s"
    and "\<And>t a t' a'. I t \<Longrightarrow> body t a = Inr (t', a') \<Longrightarrow> I t'"
  shows "I s'"
  using assms
proof (induction ags arbitrary: s s' ags')
  case Nil
  then show ?case by simp
next
  case (Cons a ags)
  from Cons.prems(1) obtain s1 a1 as2 where
    b: "body s a = Inr (s1, a1)" and r: "for_agents body s1 ags = Inr (s', as2)"
    by (auto split: sum.splits prod.splits)
  have I1: "I s1" using Cons.prems(3) [OF Cons.prems(2) b] .
  show ?case using Cons.IH [OF r I1 Cons.prems(3)] .
qed

lemma sched_body_renew_pledge:
  assumes run: "update_sched_expire_pledge_agent L m upd date_in day_idx
                  total_qa baseline_power dnr pcs (fdf, rr) ag = Inr ((fdf', rr'), ag')"
  shows "\<exists>agent_rr.
           agent_renewal_ratio (extended_qa_pib (get_power_at_date ag date_in) * PIB)
             (sched_expire_qa_pib (get_power_at_date ag date_in) * PIB) = Inr agent_rr
           \<and> scheduled_pledge_release_acct (accounting_df ag ! nat day_idx) * agent_rr
               \<le> renew_pledge_FIL (accounting_df ag' ! nat day_idx)
                  - renew_pledge_FIL (accounting_df ag ! nat day_idx)"
proof -
  from sched_body_result [OF run] obtain agent_rr ol rl fdf2 acc2 fdf4 acc4 where
    rr: "agent_renewal_ratio (extended_qa_pib (get_power_at_date ag date_in) * PIB)
             (sched_expire_qa_pib (get_power_at_date ag date_in) * PIB) = Inr agent_rr"
    and rng: "0 \<le> day_idx" "day_idx < int (length (accounting_df ag))"
    and lb: "scheduled_pledge_release_acct (accounting_df ag ! nat day_idx) * agent_rr \<le> rl"
    and s1: "schedule_release upd day_idx
                (day_onboarded_qa_duration (get_power_at_date ag date_in)) ol
                onboard_scheduled_pledge_release_FIL_update fdf
                ((accounting_df ag)[nat day_idx :=
                   onboard_pledge_FIL_update (\<lambda>v. v + ol) (accounting_df ag ! nat day_idx)])
               = Inr (fdf2, acc2)"
    and l2: "day_idx < int (length acc2)"
    and s2: "schedule_release upd day_idx
                (extended_qa_duration (get_power_at_date ag date_in)) rl
                renew_scheduled_pledge_release_FIL_update fdf2
                (acc2[nat day_idx := renew_pledge_FIL_update (\<lambda>v. v + rl) (acc2 ! nat day_idx)])
               = Inr (fdf4, acc4)"
    and ag': "ag' = ag\<lparr>accounting_df := acc4\<rparr>"
    by blast
  have a2: "renew_pledge_FIL (acc2 ! nat day_idx) = renew_pledge_FIL (accounting_df ag ! nat day_idx)"
    using schedule_release_Inr [OF s1] rng
    by (auto simp: nth_list_update split: if_splits)
  have a4: "renew_pledge_FIL (acc4 ! nat day_idx) = renew_pledge_FIL (acc2 ! nat day_idx) + rl"
    using schedule_release_Inr [OF s2] rng l2
    by (auto simp: nth_list_update split: if_splits)
  from rr lb a2 a4 ag' show ?thesis by auto
qed

text \<open>
  Claim C9. In the update of the scheduled pledge release of a day, the pledge locked for
  an agent's renewals (what is added to its \<open>renew_pledge_FIL\<close> of the day) is at least the
  pledge that was scheduled to be released for the agent that day times the agent's
  renewal ratio.
\<close>

theorem renewal_pledge_lower_bound:
  assumes run: "update_sched_expire_pledge L m date_in upd = Inr m'"
    and idx: "index0 (\<lambda>r. date r = date_in) (filecoin_df m) = Inr day_idx"
    and i: "i < length (agents m)"
  shows "\<exists>agent_rr.
           agent_renewal_ratio
             (extended_qa_pib (get_power_at_date (agents m ! i) date_in) * PIB)
             (sched_expire_qa_pib (get_power_at_date (agents m ! i) date_in) * PIB) = Inr agent_rr
           \<and> scheduled_pledge_release_acct (accounting_df (agents m ! i) ! nat day_idx) * agent_rr
               \<le> renew_pledge_FIL (accounting_df (agents m' ! i) ! nat day_idx)
                  - renew_pledge_FIL (accounting_df (agents m ! i) ! nat day_idx)"
proof -
  from sched_expire_result [OF run] idx obtain fdf1 rr where
    loop: "for_agents (update_sched_expire_pledge_agent L m upd date_in day_idx
                 (total_qa_power_eib (filecoin_df m ! nat day_idx) * EIB)
                 (network_baseline (filecoin_df m ! nat day_idx))
                 (day_network_reward (filecoin_df m ! nat day_idx))
                 (circ_supply (filecoin_df m ! nat (day_idx - 1))))
               (filecoin_df m, 1) (agents m) = Inr ((fdf1, rr), agents m')"
    by auto
  from for_agents_nth [OF loop, where I = "\<lambda>_. True" and i = i] i
  obtain t t' where
    b: "update_sched_expire_pledge_agent L m upd date_in day_idx
                 (total_qa_power_eib (filecoin_df m ! nat day_idx) * EIB)
                 (network_baseline (filecoin_df m ! nat day_idx))
                 (day_network_reward (filecoin_df m ! nat day_idx))
                 (circ_supply (filecoin_df m ! nat (day_idx - 1))) t (agents m ! i)
        = Inr (t', agents m' ! i)"
    by auto
  obtain f r f' r' where t: "t = (f, r)" "t' = (f', r')" by (cases t, cases t') auto
  from sched_body_renew_pledge [OF b [unfolded t]] show ?thesis .
qed

theorem renewal_pledge_lower_bound_witness:
  "\<exists>m'. update_sched_expire_pledge demo_locking demo_model 1 True = Inr m'
        \<and> index0 (\<lambda>r. date r = 1) (filecoin_df demo_model) = Inr 1
        \<and> (0::nat) < length (agents demo_model)
        \<and> renew_pledge_FIL (accounting_df (agents m' ! 0) ! 1) = 4
        \<and> scheduled_pledge_release_acct (accounting_df (agents demo_model ! 0) ! 1) * (1 / 2)
            \<le> renew_pledge_FIL (accounting_df (agents m' ! 0) ! 1)
               - renew_pledge_FIL (accounting_df (agents demo_model ! 0) ! 1)"
proof -
  have "\<exists>m'. update_sched_expire_pledge demo_locking demo_model 1 True = Inr m'
             \<and> renew_pledge_FIL (accounting_df (agents m' ! 0) ! 1) = 4"
    by (simp add: update_sched_expire_pledge_def update_sched_expire_pledge_agent_def
          schedule_release_def agent_renewal_ratio_def demo_defs frame_defs PIB_def EIB_def)
  then obtain m' where run: "update_sched_expire_pledge demo_locking demo_model 1 True = Inr m'"
    and val: "renew_pledge_FIL (accounting_df (agents m' ! 0) ! 1) = 4" by blast
  have i: "index0 (\<lambda>r. date r = 1) (filecoin_df demo_model) = Inr 1"
    by (simp add: index0_def demo_model_def demo_row_def)
  have l: "(0::nat) < length (agents demo_model)" by (simp add: demo_model_def)
  from renewal_pledge_lower_bound [OF run i l] obtain agent_rr where
    rr: "agent_renewal_ratio
             (extended_qa_pib (get_power_at_date (agents demo_model ! 0) 1) * PIB)
             (sched_expire_qa_pib (get_power_at_date (agents demo_model ! 0) 1) * PIB) = Inr agent_rr"
    and lb: "scheduled_pledge_release_acct (accounting_df (agents demo_model ! 0) ! nat 1) * agent_rr
               \<le> renew_pledge_FIL (accounting_df (agents m' ! 0) ! nat 1)
                  - renew_pledge_FIL (accounting_df (agents demo_model ! 0) ! nat 1)"
    by blast
  have "agent_rr = 1 / 2" using rr
    by (simp add: agent_renewal_ratio_def demo_defs np_clip_def PIB_def)
  with lb run i l val show ?thesis by auto
qed

lemma iloc_prev_row:
  assumes "0 \<le> day_idx" "day_idx < int (length fdf)"
  shows "iloc fdf (day_idx - 1)
           = Inr (if day_idx = 0 then last fdf else fdf ! nat (day_idx - 1))"
proof (cases "day_idx = 0")
  case True
  from assms True have ne: "fdf \<noteq> []" by auto
  then have "fdf ! nat (int (length fdf) - 1) = last fdf"
    by (simp add: last_conv_nth nat_diff_distrib')
  with True ne show ?thesis by (simp add: iloc_def Let_def)
next
  case False
  with assms show ?thesis by (simp add: iloc_def Let_def)
qed

lemma schedule_release_out_of_horizon:
  "int (length fdf) \<le> day_idx + duration \<Longrightarrow>
     schedule_release upd day_idx duration locked upd_own fdf acc = Inr (fdf, acc)"
  by (simp add: schedule_release_def)

lemma schedule_release_in_horizon:
  assumes "upd" "0 \<le> day_idx + duration" "day_idx + duration < int (length fdf)"
    "day_idx + duration < int (length acc)"
  shows "schedule_release upd day_idx duration locked upd_own fdf acc =
           Inr (fdf[nat (day_idx + duration) :=
                      scheduled_pledge_release_update (\<lambda>v. v + locked)
                        (fdf ! nat (day_idx + duration))],
                acc[nat (day_idx + duration) :=
                      scheduled_pledge_release_acct_update (\<lambda>v. v + locked)
                        (upd_own (\<lambda>v. v + locked) (acc ! nat (day_idx + duration)))])"
  using assms by (simp add: schedule_release_def loc_update_def nat_less_iff)

lemma sched_body_unfold:
  assumes day: "0 \<le> day_idx" "day_idx < int (length fdf)"
      "day_idx < int (length (accounting_df ag))"
    and rr: "agent_renewal_ratio (extended_qa_pib (get_power_at_date ag date_in) * PIB)
               (sched_expire_qa_pib (get_power_at_date ag date_in) * PIB) = Inr agent_rr"
    and s1: "schedule_release upd day_idx
                (day_onboarded_qa_duration (get_power_at_date ag date_in))
                (compute_new_pledge_for_added_power L dnr pcs
                   (day_onboarded_qa_power_pib (get_power_at_date ag date_in) * PIB)
                   total_qa baseline_power (lock_target m) (pledge_onboard_ratio_callable m)
                   (pledge_onboard_ratio_callable_kwargs_fn m date_in
                      (if day_idx = 0 then last fdf else fdf ! nat (day_idx - 1))
                      (lock_target m)))
                onboard_scheduled_pledge_release_FIL_update fdf
                ((accounting_df ag)[nat day_idx :=
                   onboard_pledge_FIL_update (\<lambda>v. v + compute_new_pledge_for_added_power L dnr pcs
                   (day_onboarded_qa_power_pib (get_power_at_date ag date_in) * PIB)
                   total_qa baseline_power (lock_target m) (pledge_onboard_ratio_callable m)
                   (pledge_onboard_ratio_callable_kwargs_fn m date_in
                      (if day_idx = 0 then last fdf else fdf ! nat (day_idx - 1))
                      (lock_target m))) (accounting_df ag ! nat day_idx)])
               = Inr (fdf2, acc2)"
    and l2: "length acc2 = length (accounting_df ag)"
    and s2: "schedule_release upd day_idx
                (extended_qa_duration (get_power_at_date ag date_in))
                (max (scheduled_pledge_release_acct (accounting_df ag ! nat day_idx) * agent_rr)
                   (compute_new_pledge_for_added_power L dnr pcs
                   (extended_qa_pib (get_power_at_date ag date_in) * PIB)
                   total_qa baseline_power (lock_target m) (pledge_onboard_ratio_callable m)
                   (pledge_onboard_ratio_callable_kwargs_fn m date_in
                      (if day_idx = 0 then last fdf else fdf ! nat (day_idx - 1))
                      (lock_target m))))
                renew_scheduled_pledge_release_FIL_update fdf2
                (acc2[nat day_idx := renew_pledge_FIL_update (\<lambda>v. v +
                   max (scheduled_pledge_release_acct (accounting_df ag ! nat day_idx) * agent_rr)
                   (compute_new_pledge_for_added_power L dnr pcs
                   (extended_qa_pib (get_power_at_date ag date_in) * PIB)
                   total_qa baseline_power (lock_target m) (pledge_onboard_ratio_callable m)
                   (pledge_onboard_ratio_callable_kwargs_fn m date_in
                      (if day_idx = 0 then last fdf else fdf ! nat (day_idx - 1))
                      (lock_target m)))) (acc2 ! nat day_idx)])
               = Inr (fdf4, acc4)"
    and l4: "length fdf4 = length fdf"
  shows "update_sched_expire_pledge_agent L m upd date_in day_idx
           total_qa baseline_power dnr pcs (fdf, rr0) ag =
         Inr ((fdf4[nat day_idx := original_pledge_update
                 (\<lambda>v. v + scheduled_pledge_release_acct (accounting_df ag ! nat day_idx) * agent_rr)
                 (fdf4 ! nat day_idx)], rr0 * agent_rr), ag\<lparr>accounting_df := acc4\<rparr>)"
  unfolding update_sched_expire_pledge_agent_def Let_def fst_conv snd_conv
    iloc_prev_row [OF day(1,2)] bind_res_Inr rr
  using day l2 l4
  by (simp add: loc_def loc_update_def s1 s2)

text \<open>
  Claim C3. An onboarding or a renewal whose release day \<open>day_idx + duration\<close> is not a
  row of the network ledger (\<open>len(filecoin_df) \<le> day_idx + duration\<close>) schedules nothing:
  the guarded block returns without an exception and leaves the network ledger and the
  agent's ledger as they were. For the step of one agent, on a day that is in both
  ledgers and with a renewal ratio that is defined: when both release days lie beyond the
  ledger, the step returns, and the only rows that change are those of the day itself,
  where the locked pledge (\<open>onboard_pledge_FIL\<close>, \<open>renew_pledge_FIL\<close>) and the
  \<open>original_pledge\<close> are recorded; when only one of them does, the step returns the
  ledgers with the entry of the other event alone.
\<close>

theorem out_of_horizon_release_dropped:
  fixes L :: "('oc, 'kw) locking" and m :: "('oc, 'kw) filecoin_model"
    and upd :: bool and date_in :: date and day_idx :: int
    and total_qa baseline_power dnr pcs rr agent_rr :: real
    and fdf :: "day_slice list" and ag :: agent
  defines "stats \<equiv> get_power_at_date ag date_in"
    and "acc \<equiv> accounting_df ag"
    and "prev_row \<equiv> (if day_idx = 0 then last fdf else fdf ! nat (day_idx - 1))"
  defines "d_on \<equiv> day_onboarded_qa_duration stats"
    and "d_ren \<equiv> extended_qa_duration stats"
    and "kwargs \<equiv> pledge_onboard_ratio_callable_kwargs_fn m date_in prev_row (lock_target m)"
  defines "ol \<equiv> compute_new_pledge_for_added_power L dnr pcs
                   (day_onboarded_qa_power_pib stats * PIB) total_qa baseline_power
                   (lock_target m) (pledge_onboard_ratio_callable m) kwargs"
    and "rl0 \<equiv> compute_new_pledge_for_added_power L dnr pcs
                   (extended_qa_pib stats * PIB) total_qa baseline_power
                   (lock_target m) (pledge_onboard_ratio_callable m) kwargs"
  assumes day: "0 \<le> day_idx" "day_idx < int (length fdf)" "day_idx < int (length acc)"
    and ratio: "agent_renewal_ratio (extended_qa_pib stats * PIB)
                  (sched_expire_qa_pib stats * PIB) = Inr agent_rr"
  defines "orig \<equiv> scheduled_pledge_release_acct (acc ! nat day_idx) * agent_rr"
  defines "rl \<equiv> max orig rl0"
  defines "acc1 \<equiv> acc[nat day_idx := onboard_pledge_FIL_update (\<lambda>v. v + ol) (acc ! nat day_idx)]"
  defines "step \<equiv> update_sched_expire_pledge_agent L m upd date_in day_idx
                     total_qa baseline_power dnr pcs (fdf, rr) ag"
  shows "(int (length net) \<le> day_idx + duration \<longrightarrow>
            schedule_release upd day_idx duration locked upd_own net own = Inr (net, own))
       \<and> (int (length fdf) \<le> day_idx + d_on \<and> int (length fdf) \<le> day_idx + d_ren \<longrightarrow>
            step = Inr ((fdf[nat day_idx :=
                             original_pledge_update (\<lambda>v. v + orig) (fdf ! nat day_idx)],
                         rr * agent_rr),
                        ag\<lparr>accounting_df :=
                             acc1[nat day_idx :=
                                    renew_pledge_FIL_update (\<lambda>v. v + rl) (acc1 ! nat day_idx)]\<rparr>))
       \<and> (int (length fdf) \<le> day_idx + d_on \<and> upd \<and> 0 \<le> day_idx + d_ren
            \<and> day_idx + d_ren < int (length fdf) \<and> day_idx + d_ren < int (length acc) \<longrightarrow>
            (let n = nat (day_idx + d_ren);
                 acc3 = acc1[nat day_idx :=
                               renew_pledge_FIL_update (\<lambda>v. v + rl) (acc1 ! nat day_idx)];
                 acc4 = acc3[n := scheduled_pledge_release_acct_update (\<lambda>v. v + rl)
                                    (renew_scheduled_pledge_release_FIL_update (\<lambda>v. v + rl)
                                       (acc3 ! n))];
                 fdf4 = fdf[n := scheduled_pledge_release_update (\<lambda>v. v + rl) (fdf ! n)]
             in step = Inr ((fdf4[nat day_idx :=
                                    original_pledge_update (\<lambda>v. v + orig) (fdf4 ! nat day_idx)],
                             rr * agent_rr),
                            ag\<lparr>accounting_df := acc4\<rparr>)))
       \<and> (int (length fdf) \<le> day_idx + d_ren \<and> upd \<and> 0 \<le> day_idx + d_on
            \<and> day_idx + d_on < int (length fdf) \<and> day_idx + d_on < int (length acc) \<longrightarrow>
            (let n = nat (day_idx + d_on);
                 acc2 = acc1[n := scheduled_pledge_release_acct_update (\<lambda>v. v + ol)
                                    (onboard_scheduled_pledge_release_FIL_update (\<lambda>v. v + ol)
                                       (acc1 ! n))];
                 acc3 = acc2[nat day_idx :=
                               renew_pledge_FIL_update (\<lambda>v. v + rl) (acc2 ! nat day_idx)];
                 fdf2 = fdf[n := scheduled_pledge_release_update (\<lambda>v. v + ol) (fdf ! n)]
             in step = Inr ((fdf2[nat day_idx :=
                                    original_pledge_update (\<lambda>v. v + orig) (fdf2 ! nat day_idx)],
                             rr * agent_rr),
                            ag\<lparr>accounting_df := acc3\<rparr>)))"
proof (intro conjI impI)
  note defs = stats_def acc_def prev_row_def d_on_def d_ren_def kwargs_def ol_def rl0_def
    orig_def rl_def acc1_def step_def
  note d = day [unfolded defs]
  note r = ratio [unfolded defs]
  show "schedule_release upd day_idx duration locked upd_own net own = Inr (net, own)"
    if "int (length net) \<le> day_idx + duration"
    using that by (rule schedule_release_out_of_horizon)
  show "step = Inr ((fdf[nat day_idx :=
                             original_pledge_update (\<lambda>v. v + orig) (fdf ! nat day_idx)],
                         rr * agent_rr),
                        ag\<lparr>accounting_df :=
                             acc1[nat day_idx :=
                                    renew_pledge_FIL_update (\<lambda>v. v + rl) (acc1 ! nat day_idx)]\<rparr>)"
    if "int (length fdf) \<le> day_idx + d_on \<and> int (length fdf) \<le> day_idx + d_ren"
    unfolding defs
    by (rule sched_body_unfold [OF d r
          schedule_release_out_of_horizon _ schedule_release_out_of_horizon refl])
       (use that in \<open>simp_all add: defs\<close>)
  show "let n = nat (day_idx + d_ren);
                 acc3 = acc1[nat day_idx :=
                               renew_pledge_FIL_update (\<lambda>v. v + rl) (acc1 ! nat day_idx)];
                 acc4 = acc3[n := scheduled_pledge_release_acct_update (\<lambda>v. v + rl)
                                    (renew_scheduled_pledge_release_FIL_update (\<lambda>v. v + rl)
                                       (acc3 ! n))];
                 fdf4 = fdf[n := scheduled_pledge_release_update (\<lambda>v. v + rl) (fdf ! n)]
             in step = Inr ((fdf4[nat day_idx :=
                                    original_pledge_update (\<lambda>v. v + orig) (fdf4 ! nat day_idx)],
                             rr * agent_rr),
                            ag\<lparr>accounting_df := acc4\<rparr>)"
    if "int (length fdf) \<le> day_idx + d_on \<and> upd \<and> 0 \<le> day_idx + d_ren
            \<and> day_idx + d_ren < int (length fdf) \<and> day_idx + d_ren < int (length acc)"
    unfolding defs Let_def
    by (rule sched_body_unfold [OF d r
          schedule_release_out_of_horizon _ schedule_release_in_horizon])
       (use that in \<open>simp_all add: defs\<close>)
  show "let n = nat (day_idx + d_on);
                 acc2 = acc1[n := scheduled_pledge_release_acct_update (\<lambda>v. v + ol)
                                    (onboard_scheduled_pledge_release_FIL_update (\<lambda>v. v + ol)
                                       (acc1 ! n))];
                 acc3 = acc2[nat day_idx :=
                               renew_pledge_FIL_update (\<lambda>v. v + rl) (acc2 ! nat day_idx)];
                 fdf2 = fdf[n := scheduled_pledge_release_update (\<lambda>v. v + ol) (fdf ! n)]
             in step = Inr ((fdf2[nat day_idx :=
                                    original_pledge_update (\<lambda>v. v + orig) (fdf2 ! nat day_idx)],
                             rr * agent_rr),
                            ag\<lparr>accounting_df := acc3\<rparr>)"
    if "int (length fdf) \<le> day_idx + d_ren \<and> upd \<and> 0 \<le> day_idx + d_on
            \<and> day_idx + d_on < int (length fdf) \<and> day_idx + d_on < int (length acc)"
    unfolding defs Let_def
    by (rule sched_body_unfold [OF d r
          schedule_release_in_horizon _ schedule_release_out_of_horizon])
       (use that in \<open>simp_all add: defs\<close>)
qed

theorem out_of_horizon_release_dropped_witness:
  "schedule_release True 1 2 2 onboard_scheduled_pledge_release_FIL_update
       (filecoin_df demo_model) (accounting_df (demo_agent_dur 2 540))
     = Inr (filecoin_df demo_model, accounting_df (demo_agent_dur 2 540))
   \<and> update_sched_expire_pledge_agent demo_locking demo_model True 1 1 EIB EIB 100 500
       (filecoin_df demo_model, 1) (demo_agent_dur 2 540)
     = Inr (([demo_row 0, (demo_row 1)\<lparr>original_pledge := 4\<rparr>, demo_row 2], 1 / 2),
            (demo_agent_dur 2 540)\<lparr>accounting_df :=
               [demo_acct 0, (demo_acct 1)\<lparr>onboard_pledge_FIL := 2, renew_pledge_FIL := 4\<rparr>,
                demo_acct 2]\<rparr>)
   \<and> update_sched_expire_pledge_agent demo_locking demo_model True 1 1 EIB EIB 100 500
       (filecoin_df demo_model, 1) (demo_agent_dur 2 1)
     = Inr (([demo_row 0, (demo_row 1)\<lparr>original_pledge := 4\<rparr>,
              (demo_row 2)\<lparr>scheduled_pledge_release := 4\<rparr>], 1 / 2),
            (demo_agent_dur 2 1)\<lparr>accounting_df :=
               [demo_acct 0, (demo_acct 1)\<lparr>onboard_pledge_FIL := 2, renew_pledge_FIL := 4\<rparr>,
                (demo_acct 2)\<lparr>renew_scheduled_pledge_release_FIL := 4,
                               scheduled_pledge_release_acct := 12\<rparr>]\<rparr>)
   \<and> update_sched_expire_pledge_agent demo_locking demo_model True 1 1 EIB EIB 100 500
       (filecoin_df demo_model, 1) (demo_agent_dur 1 2)
     = Inr (([demo_row 0, (demo_row 1)\<lparr>original_pledge := 4\<rparr>,
              (demo_row 2)\<lparr>scheduled_pledge_release := 2\<rparr>], 1 / 2),
            (demo_agent_dur 1 2)\<lparr>accounting_df :=
               [demo_acct 0, (demo_acct 1)\<lparr>onboard_pledge_FIL := 2, renew_pledge_FIL := 4\<rparr>,
                (demo_acct 2)\<lparr>onboard_scheduled_pledge_release_FIL := 2,
                               scheduled_pledge_release_acct := 10\<rparr>]\<rparr>)"
proof -
  note ds = demo_defs
  have r: "agent_renewal_ratio
             (extended_qa_pib (get_power_at_date (demo_agent_dur a b) 1) * PIB)
             (sched_expire_qa_pib (get_power_at_date (demo_agent_dur a b) 1) * PIB)
           = Inr (1 / 2)" for a b
    by (simp add: agent_renewal_ratio_def ds np_clip_def PIB_def)
  have l: "(0::int) \<le> 1" "1 < int (length (filecoin_df demo_model))"
    "1 < int (length (accounting_df (demo_agent_dur a b)))" for a b
    by (simp_all add: ds)
  note t = out_of_horizon_release_dropped [where L = demo_locking and m = demo_model
      and upd = True and date_in = 1 and day_idx = 1 and total_qa = EIB
      and baseline_power = EIB and dnr = 100 and pcs = 500 and rr = 1
      and fdf = "filecoin_df demo_model" and agent_rr = "1 / 2"]
  have a: "schedule_release True 1 2 2 onboard_scheduled_pledge_release_FIL_update
       (filecoin_df demo_model) (accounting_df (demo_agent_dur 2 540))
     = Inr (filecoin_df demo_model, accounting_df (demo_agent_dur 2 540))"
    using t [where ag = "demo_agent_dur 2 540" and duration = 2 and locked = 2
        and upd_own = onboard_scheduled_pledge_release_FIL_update
        and net = "filecoin_df demo_model"
        and own = "accounting_df (demo_agent_dur 2 540)", OF l r, THEN conjunct1]
    by (simp add: ds)
  have b: "update_sched_expire_pledge_agent demo_locking demo_model True 1 1 EIB EIB 100 500
       (filecoin_df demo_model, 1) (demo_agent_dur 2 540)
     = Inr (([demo_row 0, (demo_row 1)\<lparr>original_pledge := 4\<rparr>, demo_row 2], 1 / 2),
            (demo_agent_dur 2 540)\<lparr>accounting_df :=
               [demo_acct 0, (demo_acct 1)\<lparr>onboard_pledge_FIL := 2, renew_pledge_FIL := 4\<rparr>,
                demo_acct 2]\<rparr>)"
    using t [where ag = "demo_agent_dur 2 540", OF l r, THEN conjunct2, THEN conjunct1]
    by (simp add: ds PIB_def)
  have c: "update_sched_expire_pledge_agent demo_locking demo_model True 1 1 EIB EIB 100 500
       (filecoin_df demo_model, 1) (demo_agent_dur 2 1)
     = Inr (([demo_row 0, (demo_row 1)\<lparr>original_pledge := 4\<rparr>,
              (demo_row 2)\<lparr>scheduled_pledge_release := 4\<rparr>], 1 / 2),
            (demo_agent_dur 2 1)\<lparr>accounting_df :=
               [demo_acct 0, (demo_acct 1)\<lparr>onboard_pledge_FIL := 2, renew_pledge_FIL := 4\<rparr>,
                (demo_acct 2)\<lparr>renew_scheduled_pledge_release_FIL := 4,
                               scheduled_pledge_release_acct := 12\<rparr>]\<rparr>)"
    using t [where ag = "demo_agent_dur 2 1", OF l r, THEN conjunct2, THEN conjunct2, THEN conjunct1]
    by (simp add: ds PIB_def Let_def)
  have d: "update_sched_expire_pledge_agent demo_locking demo_model True 1 1 EIB EIB 100 500
       (filecoin_df demo_model, 1) (demo_agent_dur 1 2)
     = Inr (([demo_row 0, (demo_row 1)\<lparr>original_pledge := 4\<rparr>,
              (demo_row 2)\<lparr>scheduled_pledge_release := 2\<rparr>], 1 / 2),
            (demo_agent_dur 1 2)\<lparr>accounting_df :=
               [demo_acct 0, (demo_acct 1)\<lparr>onboard_pledge_FIL := 2, renew_pledge_FIL := 4\<rparr>,
                (demo_acct 2)\<lparr>onboard_scheduled_pledge_release_FIL := 2,
                               scheduled_pledge_release_acct := 10\<rparr>]\<rparr>)"
    using t [where ag = "demo_agent_dur 1 2", OF l r, THEN conjunct2, THEN conjunct2, THEN conjunct2]
    by (simp add: ds PIB_def Let_def)
  from a b c d show ?thesis by (intro conjI)
qed

section \<open>Power totals\<close>

lemma accumulate_sum_list: "accumulate f xs = sum_list (map f xs)"
proof -
  have "foldl (\<lambda>total x. total + f x) a xs = a + sum_list (map f xs)" for a
    by (induction xs arbitrary: a) simp_all
  then show ?thesis by (simp add: accumulate_def)
qed

lemma compute_macro_network:
  "info_day_network_rbp_pib (compute_macro ags date_in)
     = sum_list (map (\<lambda>ag. day_onboarded_rb_power_pib (get_power_at_date ag date_in)) ags)
       + sum_list (map (\<lambda>ag. extended_rb_pib (get_power_at_date ag date_in)) ags)
       - sum_list (map (\<lambda>ag. sched_expire_rb_pib (get_power_at_date ag date_in)) ags)
       - sum_list (map (\<lambda>ag. terminated_rb_pib (get_power_at_date ag date_in)) ags)"
  "info_day_network_qap_pib (compute_macro ags date_in)
     = sum_list (map (\<lambda>ag. day_onboarded_qa_power_pib (get_power_at_date ag date_in)) ags)
       + sum_list (map (\<lambda>ag. extended_qa_pib (get_power_at_date ag date_in)) ags)
       - sum_list (map (\<lambda>ag. sched_expire_qa_pib (get_power_at_date ag date_in)) ags)
       - sum_list (map (\<lambda>ag. terminated_qa_pib (get_power_at_date ag date_in)) ags)"
  by (simp_all add: compute_macro_def Let_def accumulate_sum_list)

lemma update_power_metrics_result:
  assumes rng: "1 \<le> day_idx" "day_idx < int (length (filecoin_df m))"
    and day: "day_idx = (case day_idx_arg of None \<Rightarrow> current_day m | Some d \<Rightarrow> d)"
  shows "update_power_metrics m info day_idx_arg =
           Inr (m\<lparr>filecoin_df := (filecoin_df m)[nat day_idx :=
               (filecoin_df m ! nat day_idx)
              \<lparr> day_onboarded_rbp_pib := info_day_onboarded_rbp_pib info,
                day_onboarded_qap_pib := max (info_day_onboarded_qap_pib info) MIN_VALUE,
                day_renewed_rbp_pib := info_day_renewed_rbp_pib info,
                day_renewed_qap_pib := info_day_renewed_qap_pib info,
                day_sched_expire_rbp_pib := info_day_sched_expire_rbp_pib info,
                day_sched_expire_qap_pib := info_day_sched_expire_qap_pib info,
                day_terminated_rbp_pib := info_day_terminated_rbp_pib info,
                day_terminated_qap_pib := info_day_terminated_qap_pib info,
                day_network_rbp_pib := info_day_network_rbp_pib info,
                day_network_qap_pib := info_day_network_qap_pib info,
                total_raw_power_eib :=
                  max (info_day_network_rbp_pib info / 1024
                       + total_raw_power_eib (filecoin_df m ! nat (day_idx - 1))) MIN_VALUE,
                total_qa_power_eib :=
                  max (info_day_network_qap_pib info / 1024
                       + total_qa_power_eib (filecoin_df m ! nat (day_idx - 1))) MIN_VALUE \<rparr>]\<rparr>)"
  unfolding update_power_metrics_def Let_def day [symmetric]
  using rng by (simp add: loc_def)

text \<open>
  Claim C4, amended. On a day of the ledger that has a previous row, the update of the
  power totals returns and records, for each of the two power classes, the larger of
  \<open>MIN_VALUE\<close> and the previous day's total (EiB) plus the day's onboarded + renewed
  - scheduled-expired - terminated power of all agents (PiB, divided by 1024). The
  recorded total equals that sum exactly when the sum is at least \<open>MIN_VALUE\<close>; no
  other row of the ledger changes.
\<close>

theorem power_total_update:
  fixes m :: "('oc, 'kw) filecoin_model" and date_in :: date and day_idx_arg :: "int option"
  defines "day_idx \<equiv> (case day_idx_arg of None \<Rightarrow> current_day m | Some d \<Rightarrow> d)"
  defines "day_sum \<equiv> (\<lambda>field. sum_list (map (\<lambda>ag. field (get_power_at_date ag date_in)) (agents m)))"
  defines "raw \<equiv> total_raw_power_eib (filecoin_df m ! nat (day_idx - 1))
      + (day_sum day_onboarded_rb_power_pib + day_sum extended_rb_pib
           - day_sum sched_expire_rb_pib - day_sum terminated_rb_pib) / 1024"
    and "qa \<equiv> total_qa_power_eib (filecoin_df m ! nat (day_idx - 1))
      + (day_sum day_onboarded_qa_power_pib + day_sum extended_qa_pib
           - day_sum sched_expire_qa_pib - day_sum terminated_qa_pib) / 1024"
  assumes rng: "1 \<le> day_idx" "day_idx < int (length (filecoin_df m))"
  shows "\<exists>m'. update_power_metrics m (compute_macro (agents m) date_in) day_idx_arg = Inr m'
       \<and> total_raw_power_eib (filecoin_df m' ! nat day_idx) = max raw MIN_VALUE
       \<and> total_qa_power_eib (filecoin_df m' ! nat day_idx) = max qa MIN_VALUE
       \<and> (total_raw_power_eib (filecoin_df m' ! nat day_idx) = raw \<longleftrightarrow> MIN_VALUE \<le> raw)
       \<and> (total_qa_power_eib (filecoin_df m' ! nat day_idx) = qa \<longleftrightarrow> MIN_VALUE \<le> qa)
       \<and> length (filecoin_df m') = length (filecoin_df m)
       \<and> (\<forall>k. k \<noteq> nat day_idx \<longrightarrow> filecoin_df m' ! k = filecoin_df m ! k)"
proof -
  have n: "nat day_idx < length (filecoin_df m)" using rng by (simp add: nat_less_iff)
  note res = update_power_metrics_result [OF rng day_idx_def [THEN meta_eq_to_obj_eq],
      of "compute_macro (agents m) date_in"]
  have r: "info_day_network_rbp_pib (compute_macro (agents m) date_in) / 1024
             + total_raw_power_eib (filecoin_df m ! nat (day_idx - 1)) = raw"
    unfolding compute_macro_network raw_def day_sum_def by simp
  have q: "info_day_network_qap_pib (compute_macro (agents m) date_in) / 1024
             + total_qa_power_eib (filecoin_df m ! nat (day_idx - 1)) = qa"
    unfolding compute_macro_network qa_def day_sum_def by simp
  show ?thesis
    unfolding res r q using n by (auto simp: max_def)
qed

theorem power_total_update_witness:
  "(\<exists>m'. update_power_metrics demo_model (compute_macro (agents demo_model) 1) None = Inr m'
       \<and> total_raw_power_eib (filecoin_df m' ! 1) = 513 / 512
       \<and> total_qa_power_eib (filecoin_df m' ! 1) = 513 / 512
       \<and> filecoin_df m' ! 0 = demo_row 0 \<and> filecoin_df m' ! 2 = demo_row 2)
   \<and> (\<exists>m'. update_power_metrics cx_power_model (compute_macro (agents cx_power_model) 2)
              (Some 2) = Inr m'
       \<and> total_raw_power_eib (filecoin_df m' ! 2) = MIN_VALUE
       \<and> total_qa_power_eib (filecoin_df m' ! 2) = MIN_VALUE
       \<and> filecoin_df m' ! 0 = demo_row 0 \<and> filecoin_df m' ! 1 = demo_row 1)"
proof -
  note ds = demo_defs cx_power_model_def cx_stats_def
  have h: "1 \<le> (case None of None \<Rightarrow> current_day demo_model | Some d \<Rightarrow> d)"
    "(case None of None \<Rightarrow> current_day demo_model | Some d \<Rightarrow> d)
       < int (length (filecoin_df demo_model))"
    by (simp_all add: ds)
  from power_total_update [where m = demo_model and day_idx_arg = None and date_in = 1, OF h]
  obtain m' where
    run: "update_power_metrics demo_model (compute_macro (agents demo_model) 1) None = Inr m'"
    and r: "total_raw_power_eib (filecoin_df m' ! nat (current_day demo_model))
              = max (1 + (4 + 2 - 4 - 0) / 1024) MIN_VALUE"
    and q: "total_qa_power_eib (filecoin_df m' ! nat (current_day demo_model))
              = max (1 + (4 + 2 - 4 - 0) / 1024) MIN_VALUE"
    and f: "\<forall>k. k \<noteq> nat (current_day demo_model) \<longrightarrow>
                filecoin_df m' ! k = filecoin_df demo_model ! k"
    by (simp add: ds) blast
  have a: "\<exists>m'. update_power_metrics demo_model (compute_macro (agents demo_model) 1) None = Inr m'
       \<and> total_raw_power_eib (filecoin_df m' ! 1) = 513 / 512
       \<and> total_qa_power_eib (filecoin_df m' ! 1) = 513 / 512
       \<and> filecoin_df m' ! 0 = demo_row 0 \<and> filecoin_df m' ! 2 = demo_row 2"
    using run r q f [rule_format, of 0] f [rule_format, of 2]
    by (simp add: demo_model_def MIN_VALUE_def)
  have h2: "1 \<le> (case Some 2 of None \<Rightarrow> current_day cx_power_model | Some d \<Rightarrow> d)"
    "(case Some 2 of None \<Rightarrow> current_day cx_power_model | Some d \<Rightarrow> d)
       < int (length (filecoin_df cx_power_model))"
    by (simp_all add: ds)
  from power_total_update [where m = cx_power_model and day_idx_arg = "Some 2" and date_in = 2,
      OF h2]
  obtain m2 where
    run2: "update_power_metrics cx_power_model (compute_macro (agents cx_power_model) 2)
             (Some 2) = Inr m2"
    and r2: "total_raw_power_eib (filecoin_df m2 ! 2) = max (1 + (0 + 0 - 0 - 2048) / 1024) MIN_VALUE"
    and q2: "total_qa_power_eib (filecoin_df m2 ! 2) = max (1 + (0 + 0 - 0 - 2048) / 1024) MIN_VALUE"
    and f2: "\<forall>k. k \<noteq> 2 \<longrightarrow> filecoin_df m2 ! k = filecoin_df cx_power_model ! k"
    by (simp add: ds) blast
  have b: "\<exists>m'. update_power_metrics cx_power_model (compute_macro (agents cx_power_model) 2)
              (Some 2) = Inr m'
       \<and> total_raw_power_eib (filecoin_df m' ! 2) = MIN_VALUE
       \<and> total_qa_power_eib (filecoin_df m' ! 2) = MIN_VALUE
       \<and> filecoin_df m' ! 0 = demo_row 0 \<and> filecoin_df m' ! 1 = demo_row 1"
    using run2 r2 q2 f2 [rule_format, of 0] f2 [rule_format, of 1]
    by (simp add: demo_model_def cx_power_model_def MIN_VALUE_def)
  from a b show ?thesis by (rule conjI)
qed

text \<open>
  The equality of the claim does not hold after the clamp: with a total of 1 EiB on day 0
  and 2048 PiB terminated on day 1, the sum is -1 EiB and the recorded total is
  \<open>MIN_VALUE\<close>.
\<close>

theorem power_total_clamp_counterexample:
  "update_power_metrics cx_power_model (compute_macro (agents cx_power_model) 1) None
     = Inr (cx_power_model\<lparr>filecoin_df :=
          [demo_row 0,
           (demo_row 1)\<lparr>day_onboarded_qap_pib := 1 / 10 ^ 6,
                         day_terminated_rbp_pib := 2048, day_terminated_qap_pib := 2048,
                         day_network_rbp_pib := - 2048, day_network_qap_pib := - 2048,
                         total_raw_power_eib := 1 / 10 ^ 6, total_qa_power_eib := 1 / 10 ^ 6\<rparr>,
           demo_row 2]\<rparr>)
   \<and> total_raw_power_eib (demo_row 0) + (0 + 0 - 0 - 2048) / 1024 = - 1
   \<and> total_qa_power_eib (demo_row 0) + (0 + 0 - 0 - 2048) / 1024 = - 1"
  by (simp add: update_power_metrics_def compute_macro_def accumulate_def
        demo_defs cx_power_model_def cx_stats_def frame_defs MIN_VALUE_def)

section \<open>Power shares\<close>




lemma get_agent_power_proportion_result:
  assumes row: "iloc (filecoin_df m) (case update_day of None \<Rightarrow> current_day m | Some d \<Rightarrow> d)
                  = Inr row"
    and T: "total_qa_power_eib row * EIB \<noteq> 0"
    and S: "sum_list (map (\<lambda>ag. min (get_active_qa_power_at_date ag (date row) * PIB
                                      / (total_qa_power_eib row * EIB)) 1) (agents m)) \<noteq> 0"
  shows "get_agent_power_proportion m update_day =
           Inr (map (\<lambda>ag. min (get_active_qa_power_at_date ag (date row) * PIB
                                 / (total_qa_power_eib row * EIB)) 1
                         / sum_list (map (\<lambda>ag. min (get_active_qa_power_at_date ag (date row) * PIB
                                      / (total_qa_power_eib row * EIB)) 1) (agents m)))
                  (agents m),
                foldl (\<lambda>d (ag, p). d(unique_id ag \<mapsto> p)) Map.empty
                  (zip (agents m)
                     (map (\<lambda>ag. min (get_active_qa_power_at_date ag (date row) * PIB
                                 / (total_qa_power_eib row * EIB)) 1
                         / sum_list (map (\<lambda>ag. min (get_active_qa_power_at_date ag (date row) * PIB
                                      / (total_qa_power_eib row * EIB)) 1) (agents m)))
                  (agents m))))"
  unfolding get_agent_power_proportion_def Let_def row bind_res_Inr accumulate_sum_list
  using T S by (simp add: comp_def)




section \<open>Vesting of the rewards\<close>

lemma loc_slice_update_length [simp]: "length (loc_slice_update df lo hi f) = length df"
  by (simp add: loc_slice_update_def)

lemma loc_slice_update_nth:
  "k < length df \<Longrightarrow>
     loc_slice_update df lo hi f ! k = (if lo \<le> int k \<and> int k \<le> hi then f (df ! k) else df ! k)"
  by (simp add: loc_slice_update_def nth_enumerate_eq)

lemma update_agents_agent_result:
  assumes ii: "ii < length vec"
    and idx: "index0 (\<lambda>r. date_acct r = date_in) (accounting_df ag) = Inr idx"
  shows "update_agents_agent date_in total_day_rewards vec (ii, dbg) ag =
           Inr ((Suc ii, dbg + get_active_qa_power_at_date ag date_in * PIB),
                ag\<lparr>accounting_df :=
                  (loc_slice_update
                     ((accounting_df ag)[nat idx :=
                        reward_FIL_update (\<lambda>v. v + total_day_rewards * vec ! ii * 0.25)
                          (accounting_df ag ! nat idx)])
                     (idx + 1) (idx + 180)
                     (reward_FIL_update (\<lambda>v. v + (total_day_rewards * vec ! ii * 0.75) / 180)))
                  [nat idx :=
                     full_reward_for_power_FIL_update (\<lambda>v. v + total_day_rewards * vec ! ii)
                       (loc_slice_update
                          ((accounting_df ag)[nat idx :=
                             reward_FIL_update (\<lambda>v. v + total_day_rewards * vec ! ii * 0.25)
                               (accounting_df ag ! nat idx)])
                          (idx + 1) (idx + 180)
                          (reward_FIL_update (\<lambda>v. v + (total_day_rewards * vec ! ii * 0.75) / 180))
                        ! nat idx)]\<rparr>)"
proof -
  from index0_InrD [OF idx] have r: "0 \<le> idx" "idx < int (length (accounting_df ag))"
    by simp_all
  have v: "iloc vec (int ii) = Inr (vec ! ii)" using ii by (simp add: iloc_def Let_def)
  show ?thesis
    unfolding update_agents_agent_def Let_def fst_conv snd_conv v idx bind_res_Inr
      post_global_step_def
    using r by (simp add: loc_update_def)
qed

lemma update_agents_agent_rows:
  assumes ii: "ii < length vec"
    and idx: "index0 (\<lambda>r. date_acct r = date_in) (accounting_df ag) = Inr idx"
  shows "\<exists>acc'. update_agents_agent date_in total_day_rewards vec (ii, dbg) ag =
           Inr ((Suc ii, dbg + get_active_qa_power_at_date ag date_in * PIB),
                ag\<lparr>accounting_df := acc'\<rparr>)
         \<and> length acc' = length (accounting_df ag)
         \<and> (\<forall>k < length (accounting_df ag). acc' ! k =
               (if int k = idx
                then full_reward_for_power_FIL_update (\<lambda>v. v + total_day_rewards * vec ! ii)
                       (reward_FIL_update (\<lambda>v. v + total_day_rewards * vec ! ii * 0.25)
                          (accounting_df ag ! k))
                else if idx < int k \<and> int k \<le> idx + 180
                then reward_FIL_update (\<lambda>v. v + (total_day_rewards * vec ! ii * 0.75) / 180)
                       (accounting_df ag ! k)
                else accounting_df ag ! k))"
proof -
  from index0_InrD [OF idx] have r: "0 \<le> idx" "idx < int (length (accounting_df ag))"
    by simp_all
  then have n: "nat idx < length (accounting_df ag)" by (simp add: nat_less_iff)
  have e: "int k = idx \<longleftrightarrow> k = nat idx" for k using r by auto
  let ?R = "total_day_rewards * vec ! ii"
  let ?acc1 = "(accounting_df ag)[nat idx :=
                 reward_FIL_update (\<lambda>v. v + ?R * 0.25) (accounting_df ag ! nat idx)]"
  let ?acc2 = "loc_slice_update ?acc1 (idx + 1) (idx + 180)
                 (reward_FIL_update (\<lambda>v. v + (?R * 0.75) / 180))"
  let ?acc3 = "?acc2[nat idx := full_reward_for_power_FIL_update (\<lambda>v. v + ?R) (?acc2 ! nat idx)]"
  have rows: "?acc3 ! k =
               (if k = nat idx
                then full_reward_for_power_FIL_update (\<lambda>v. v + ?R)
                       (reward_FIL_update (\<lambda>v. v + ?R * 0.25) (accounting_df ag ! k))
                else if idx < int k \<and> int k \<le> idx + 180
                then reward_FIL_update (\<lambda>v. v + (?R * 0.75) / 180) (accounting_df ag ! k)
                else accounting_df ag ! k)" if k: "k < length (accounting_df ag)" for k
  proof (cases "k = nat idx")
    case True
    have "?acc2 ! nat idx = ?acc1 ! nat idx" using n r by (simp add: loc_slice_update_nth)
    with True n show ?thesis by simp
  next
    case False
    with k r have "?acc3 ! k = ?acc2 ! k" by simp
    also have "\<dots> = (if idx + 1 \<le> int k \<and> int k \<le> idx + 180
                       then reward_FIL_update (\<lambda>v. v + (?R * 0.75) / 180) (?acc1 ! k)
                       else ?acc1 ! k)"
      using k by (simp add: loc_slice_update_nth)
    also have "?acc1 ! k = accounting_df ag ! k" using False by simp
    finally have "?acc3 ! k = (if idx + 1 \<le> int k \<and> int k \<le> idx + 180
                       then reward_FIL_update (\<lambda>v. v + (?R * 0.75) / 180) (accounting_df ag ! k)
                       else accounting_df ag ! k)" .
    moreover have "idx + 1 \<le> int k \<longleftrightarrow> idx < int k" by auto
    ultimately show ?thesis using False by (simp only: if_False)
  qed
  show ?thesis
  proof (rule exI [of _ ?acc3], intro conjI allI impI)
    show "update_agents_agent date_in total_day_rewards vec (ii, dbg) ag =
           Inr ((Suc ii, dbg + get_active_qa_power_at_date ag date_in * PIB),
                ag\<lparr>accounting_df := ?acc3\<rparr>)"
      by (rule update_agents_agent_result [OF ii idx])
    show "length ?acc3 = length (accounting_df ag)" by simp
    show "?acc3 ! k =
               (if int k = idx
                then full_reward_for_power_FIL_update (\<lambda>v. v + ?R)
                       (reward_FIL_update (\<lambda>v. v + ?R * 0.25) (accounting_df ag ! k))
                else if idx < int k \<and> int k \<le> idx + 180
                then reward_FIL_update (\<lambda>v. v + (?R * 0.75) / 180) (accounting_df ag ! k)
                else accounting_df ag ! k)" if "k < length (accounting_df ag)" for k
      unfolding e using rows [OF that] .
  qed
qed

lemma for_agents_total:
  assumes "\<And>j. j < length ags \<Longrightarrow> body (st j) (ags ! j) = Inr (st (Suc j), f j (ags ! j))"
  shows "for_agents body (st 0) ags
           = Inr (st (length ags), map (\<lambda>j. f j (ags ! j)) [0 ..< length ags])"
  using assms
proof (induction ags arbitrary: st f)
  case Nil
  then show ?case by simp
next
  case (Cons a ags)
  have h: "body (st 0) a = Inr (st (Suc 0), f 0 a)" using Cons.prems [of 0] by simp
  have t: "for_agents body (st (Suc 0)) ags
             = Inr (st (Suc (length ags)),
                    map (\<lambda>j. f (Suc j) (ags ! j)) [0 ..< length ags])"
    using Cons.IH [of "\<lambda>j. st (Suc j)" "\<lambda>j. f (Suc j)"] Cons.prems by force
  have m: "map (\<lambda>j. f j ((a # ags) ! j)) [0 ..< length (a # ags)]
             = f 0 a # map (\<lambda>j. f (Suc j) (ags ! j)) [0 ..< length ags]"
    by (simp add: upt_conv_Cons map_Suc_upt [symmetric] del: upt_Suc)
  show ?case unfolding m by (simp add: h t)
qed

lemma update_agents_loop:
  assumes len: "length vec = length ags"
    and dates: "\<forall>ag \<in> set ags. \<exists>d. index0 (\<lambda>r. date_acct r = date_in) (accounting_df ag) = Inr d"
  shows "\<exists>st ags'. for_agents (update_agents_agent date_in total_day_rewards vec) (0, 0) ags
                      = Inr (st, ags')
           \<and> length ags' = length ags
           \<and> (\<forall>i < length ags. \<exists>dbg.
                 update_agents_agent date_in total_day_rewards vec (i, dbg) (ags ! i)
                   = Inr ((Suc i, dbg + get_active_qa_power_at_date (ags ! i) date_in * PIB),
                          ags' ! i))"
proof -
  let ?body = "update_agents_agent date_in total_day_rewards vec"
  let ?dbg = "\<lambda>j. foldl (\<lambda>s a. s + get_active_qa_power_at_date a date_in * PIB) 0 (take j ags)"
  let ?st = "\<lambda>j. (j, ?dbg j)"
  let ?f = "\<lambda>j ag. snd (projr (?body (?st j) ag))"
  have step: "?body (?st j) (ags ! j)
                = Inr ((Suc j, ?dbg j + get_active_qa_power_at_date (ags ! j) date_in * PIB),
                       ?f j (ags ! j))" if j: "j < length ags" for j
  proof -
    from dates j obtain d where
      d: "index0 (\<lambda>r. date_acct r = date_in) (accounting_df (ags ! j)) = Inr d"
      by (meson nth_mem)
    from j len have jj: "j < length vec" by simp
    show ?thesis unfolding update_agents_agent_result [OF jj d] by simp
  qed
  have next_st: "?st (Suc j)
                  = (Suc j, ?dbg j + get_active_qa_power_at_date (ags ! j) date_in * PIB)"
    if "j < length ags" for j
    using that by (simp add: take_Suc_conv_app_nth)
  have body: "?body (?st j) (ags ! j) = Inr (?st (Suc j), ?f j (ags ! j))"
    if "j < length ags" for j
    unfolding next_st [OF that] by (rule step [OF that])
  have loop: "for_agents ?body (?st 0) ags
                = Inr (?st (length ags), map (\<lambda>j. ?f j (ags ! j)) [0 ..< length ags])"
    by (rule for_agents_total [where st = ?st and f = ?f, OF body])
  show ?thesis
  proof (rule exI [of _ "?st (length ags)"],
         rule exI [of _ "map (\<lambda>j. ?f j (ags ! j)) [0 ..< length ags]"], intro conjI allI impI)
    show "for_agents ?body (0, 0) ags
            = Inr (?st (length ags), map (\<lambda>j. ?f j (ags ! j)) [0 ..< length ags])"
      using loop by simp
    show "length (map (\<lambda>j. ?f j (ags ! j)) [0 ..< length ags]) = length ags" by simp
    show "\<exists>dbg. ?body (i, dbg) (ags ! i)
                   = Inr ((Suc i, dbg + get_active_qa_power_at_date (ags ! i) date_in * PIB),
                          map (\<lambda>j. ?f j (ags ! j)) [0 ..< length ags] ! i)"
      if "i < length ags" for i
      using step [OF that] that by (intro exI [of _ "?dbg i"]) simp
  qed
qed

text \<open>
  Claim C1, amended. On a day of the ledger with defined shares, and when every agent's
  accounting ledger holds the date, the distribution step returns, and for every agent,
  with \<open>R\<close> the day's network reward times the agent's share and \<open>d\<close> the row of the date
  in the agent's ledger: row \<open>d\<close> gets \<open>0.25 R\<close> more \<open>reward_FIL\<close> (and \<open>R\<close> more
  \<open>full_reward_for_power_FIL\<close>), each row \<open>k\<close> of the ledger with \<open>d < k \<le> d + 180\<close> gets
  \<open>0.75 R / 180\<close> more \<open>reward_FIL\<close>, and every other row is unchanged. The ledger keeps
  its length: installments of days beyond its last row are not recorded, and nothing
  else of the agent or of the network ledger changes.
\<close>

theorem vesting_schedule:
  fixes m :: "('oc, 'kw) filecoin_model" and update_day :: "int option" and row :: day_slice
  defines "day_idx \<equiv> (case update_day of None \<Rightarrow> current_day m | Some d \<Rightarrow> d)"
  defines "p \<equiv> (\<lambda>ag. min (get_active_qa_power_at_date ag (date row) * PIB
                           / (total_qa_power_eib row * EIB)) 1)"
  defines "R \<equiv> (\<lambda>ag. day_network_reward row * (p ag / sum_list (map p (agents m))))"
  assumes row: "iloc (filecoin_df m) day_idx = Inr row"
    and T0: "total_qa_power_eib row * EIB \<noteq> 0"
    and S0: "sum_list (map p (agents m)) \<noteq> 0"
    and dates: "\<forall>ag \<in> set (agents m).
                  \<exists>d. index0 (\<lambda>r. date_acct r = date row) (accounting_df ag) = Inr d"
  shows "\<exists>m'. update_agents m update_day = Inr m'
       \<and> filecoin_df m' = filecoin_df m
       \<and> length (agents m') = length (agents m)
       \<and> (\<forall>i < length (agents m). \<forall>d.
            index0 (\<lambda>r. date_acct r = date row) (accounting_df (agents m ! i)) = Inr d \<longrightarrow>
              agents m' ! i = (agents m ! i)\<lparr>accounting_df := accounting_df (agents m' ! i)\<rparr>
            \<and> length (accounting_df (agents m' ! i)) = length (accounting_df (agents m ! i))
            \<and> (\<forall>k < length (accounting_df (agents m ! i)).
                  accounting_df (agents m' ! i) ! k =
                    (if int k = d
                     then full_reward_for_power_FIL_update (\<lambda>v. v + R (agents m ! i))
                            (reward_FIL_update (\<lambda>v. v + R (agents m ! i) * 0.25)
                               (accounting_df (agents m ! i) ! k))
                     else if d < int k \<and> int k \<le> d + 180
                     then reward_FIL_update (\<lambda>v. v + (R (agents m ! i) * 0.75) / 180)
                            (accounting_df (agents m ! i) ! k)
                     else accounting_df (agents m ! i) ! k)))"
proof -
  let ?vec = "map (\<lambda>ag. p ag / sum_list (map p (agents m))) (agents m)"
  let ?ids = "foldl (\<lambda>d (ag, p). d(unique_id ag \<mapsto> p)) Map.empty (zip (agents m) ?vec)"
  have row': "iloc (filecoin_df m)
                (case Some day_idx of None \<Rightarrow> current_day m | Some d \<Rightarrow> d) = Inr row"
    using row by simp
  have gp: "get_agent_power_proportion m (Some day_idx) = Inr (?vec, ?ids)"
    unfolding p_def
    by (rule get_agent_power_proportion_result [OF row' T0 S0 [unfolded p_def]])
  from update_agents_loop [of ?vec "agents m" "date row" "day_network_reward row"] dates
  obtain st ags' where
    loop: "for_agents (update_agents_agent (date row) (day_network_reward row) ?vec) (0, 0)
             (agents m) = Inr (st, ags')"
    and len: "length ags' = length (agents m)"
    and each: "\<forall>i < length (agents m). \<exists>dbg.
                 update_agents_agent (date row) (day_network_reward row) ?vec (i, dbg)
                   (agents m ! i)
                   = Inr ((Suc i, dbg + get_active_qa_power_at_date (agents m ! i) (date row) * PIB),
                          ags' ! i)"
    by auto
  have run: "update_agents m update_day = Inr (m\<lparr>agents := ags'\<rparr>)"
    unfolding update_agents_def Let_def day_idx_def [symmetric] row bind_res_Inr gp
    by (simp add: loop)
  have rows: "ags' ! i = (agents m ! i)\<lparr>accounting_df := accounting_df (ags' ! i)\<rparr>
            \<and> length (accounting_df (ags' ! i)) = length (accounting_df (agents m ! i))
            \<and> (\<forall>k < length (accounting_df (agents m ! i)).
                  accounting_df (ags' ! i) ! k =
                    (if int k = d
                     then full_reward_for_power_FIL_update (\<lambda>v. v + R (agents m ! i))
                            (reward_FIL_update (\<lambda>v. v + R (agents m ! i) * 0.25)
                               (accounting_df (agents m ! i) ! k))
                     else if d < int k \<and> int k \<le> d + 180
                     then reward_FIL_update (\<lambda>v. v + (R (agents m ! i) * 0.75) / 180)
                            (accounting_df (agents m ! i) ! k)
                     else accounting_df (agents m ! i) ! k))"
    if i: "i < length (agents m)"
      and d: "index0 (\<lambda>r. date_acct r = date row) (accounting_df (agents m ! i)) = Inr d"
    for i d
  proof -
    from each i obtain dbg where
      b: "update_agents_agent (date row) (day_network_reward row) ?vec (i, dbg) (agents m ! i)
            = Inr ((Suc i, dbg + get_active_qa_power_at_date (agents m ! i) (date row) * PIB),
                   ags' ! i)"
      by blast
    have iv: "i < length ?vec" using i by simp
    have v: "day_network_reward row * ?vec ! i = R (agents m ! i)"
      using i by (simp add: R_def)
    from update_agents_agent_rows [OF iv d, of "day_network_reward row" dbg, unfolded b v]
    show ?thesis by auto
  qed
  show ?thesis
  proof (rule exI [of _ "m\<lparr>agents := ags'\<rparr>"], intro conjI allI impI)
    show "update_agents m update_day = Inr (m\<lparr>agents := ags'\<rparr>)" by (rule run)
    show "filecoin_df (m\<lparr>agents := ags'\<rparr>) = filecoin_df m" by simp
    show "length (agents (m\<lparr>agents := ags'\<rparr>)) = length (agents m)" using len by simp
  qed (use rows in simp_all)
qed

theorem vesting_schedule_witness:
  "\<exists>m'. update_agents long_model None = Inr m'
     \<and> map (\<lambda>k. reward_FIL (accounting_df (agents m' ! 0) ! k)) [0, 1, 2, 181, 182]
         = [0, 35 / 2, 7 / 24, 7 / 24, 0]
     \<and> full_reward_for_power_FIL (accounting_df (agents m' ! 0) ! 1) = 70
     \<and> map (\<lambda>k. reward_FIL (accounting_df (agents m' ! 1) ! k)) [0, 1, 2, 181, 182]
         = [0, 15 / 2, 1 / 8, 1 / 8, 0]"
proof -
  note ds = demo_defs long_model_def long_agent_def
  have r: "iloc (filecoin_df long_model)
             (case None of None \<Rightarrow> current_day long_model | Some d \<Rightarrow> d) = Inr (demo_row 1)"
    by (simp add: iloc_def demo_model_def long_model_def)
  have t: "total_qa_power_eib (demo_row 1) * EIB \<noteq> 0"
    by (simp add: demo_row_def EIB_def)
  have s: "sum_list (map (\<lambda>ag. min (get_active_qa_power_at_date ag (date (demo_row 1)) * PIB
                                    / (total_qa_power_eib (demo_row 1) * EIB)) 1)
                      (agents long_model)) \<noteq> 0"
    by (simp add: ds EIB_def PIB_def)
  have u: "[0 ..< 200] = 0 # 1 # [2 ..< 200]" by (simp add: upt_conv_Cons)
  have i: "index0 (\<lambda>r. date_acct r = date (demo_row 1)) (accounting_df (long_agent j q)) = Inr 1"
    for j q
    unfolding long_agent_def u by (simp add: index0_def demo_defs)
  have d: "\<forall>ag \<in> set (agents long_model).
             \<exists>d. index0 (\<lambda>r. date_acct r = date (demo_row 1)) (accounting_df ag) = Inr d"
    using i by (simp add: long_model_def)
  from vesting_schedule [OF r t s d] obtain m' where
    run: "update_agents long_model None = Inr m'"
    and rows: "\<forall>i < length (agents long_model). \<forall>d.
            index0 (\<lambda>r. date_acct r = date (demo_row 1)) (accounting_df (agents long_model ! i))
              = Inr d \<longrightarrow>
              (\<forall>k < length (accounting_df (agents long_model ! i)).
                  accounting_df (agents m' ! i) ! k =
                    (if int k = d
                     then full_reward_for_power_FIL_update (\<lambda>v. v + day_network_reward (demo_row 1) *
                   (min (get_active_qa_power_at_date (agents long_model ! i) (date (demo_row 1)) * PIB
                           / (total_qa_power_eib (demo_row 1) * EIB)) 1
                    / sum_list (map (\<lambda>ag. min (get_active_qa_power_at_date ag (date (demo_row 1)) * PIB
                                    / (total_qa_power_eib (demo_row 1) * EIB)) 1)
                      (agents long_model))))
                            (reward_FIL_update (\<lambda>v. v + day_network_reward (demo_row 1) *
                   (min (get_active_qa_power_at_date (agents long_model ! i) (date (demo_row 1)) * PIB
                           / (total_qa_power_eib (demo_row 1) * EIB)) 1
                    / sum_list (map (\<lambda>ag. min (get_active_qa_power_at_date ag (date (demo_row 1)) * PIB
                                    / (total_qa_power_eib (demo_row 1) * EIB)) 1)
                      (agents long_model))) * 0.25)
                               (accounting_df (agents long_model ! i) ! k))
                     else if d < int k \<and> int k \<le> d + 180
                     then reward_FIL_update (\<lambda>v. v + (day_network_reward (demo_row 1) *
                   (min (get_active_qa_power_at_date (agents long_model ! i) (date (demo_row 1)) * PIB
                           / (total_qa_power_eib (demo_row 1) * EIB)) 1
                    / sum_list (map (\<lambda>ag. min (get_active_qa_power_at_date ag (date (demo_row 1)) * PIB
                                    / (total_qa_power_eib (demo_row 1) * EIB)) 1)
                      (agents long_model))) * 0.75) / 180)
                            (accounting_df (agents long_model ! i) ! k)
                     else accounting_df (agents long_model ! i) ! k))"
    by blast
  have a0: "agents long_model ! 0 = long_agent 0 (7 * 1024 / 10)"
    and a1: "agents long_model ! 1 = long_agent 1 (3 * 1024 / 10)"
    and l: "length (agents long_model) = 2"
    by (simp_all add: long_model_def)
  have la: "length (accounting_df (long_agent j q)) = 200" for j q
    by (simp add: long_agent_def)
  have nth: "k < 200 \<Longrightarrow> accounting_df (long_agent j q) ! k = demo_acct (int k)" for j q k
    by (simp add: long_agent_def del: upt_rec_numeral)
  have R0: "day_network_reward (demo_row 1) *
                   (min (get_active_qa_power_at_date (long_agent 0 (7 * 1024 / 10)) (date (demo_row 1)) * PIB
                           / (total_qa_power_eib (demo_row 1) * EIB)) 1
                    / sum_list (map (\<lambda>ag. min (get_active_qa_power_at_date ag (date (demo_row 1)) * PIB
                                    / (total_qa_power_eib (demo_row 1) * EIB)) 1)
                      (agents long_model))) = 70"
    by (simp add: ds EIB_def PIB_def)
  have R1: "day_network_reward (demo_row 1) *
                   (min (get_active_qa_power_at_date (long_agent 1 (3 * 1024 / 10)) (date (demo_row 1)) * PIB
                           / (total_qa_power_eib (demo_row 1) * EIB)) 1
                    / sum_list (map (\<lambda>ag. min (get_active_qa_power_at_date ag (date (demo_row 1)) * PIB
                                    / (total_qa_power_eib (demo_row 1) * EIB)) 1)
                      (agents long_model))) = 30"
    by (simp add: ds EIB_def PIB_def)
  note r0 = rows [rule_format, of 0 1, unfolded a0 la R0, OF _ i]
  note r1 = rows [rule_format, of 1 1, unfolded a1 la R1, OF _ i]
  have A: "map (\<lambda>k. reward_FIL (accounting_df (agents m' ! 0) ! k)) [0, 1, 2, 181, 182]
         = [0, 35 / 2, 7 / 24, 7 / 24, 0]"
    using r0 [of 0] r0 [of 1] r0 [of 2] r0 [of 181] r0 [of 182] l
    by (simp add: nth demo_acct_def)
  have B: "full_reward_for_power_FIL (accounting_df (agents m' ! 0) ! 1) = 70"
    using r0 [of 1] l by (simp add: nth demo_acct_def)
  have C: "map (\<lambda>k. reward_FIL (accounting_df (agents m' ! 1) ! k)) [0, 1, 2, 181, 182]
         = [0, 15 / 2, 1 / 8, 1 / 8, 0]"
    using r1 [of 0] r1 [of 1] r1 [of 2] r1 [of 181] r1 [of 182] l
    by (simp add: nth demo_acct_def)
  show ?thesis by (rule exI [of _ m']) (intro conjI run A B C)
qed

text \<open>
  The truncation is not flagged. On the ledger of three days a reward of 70 credited on
  day 1 leaves 35/2 on day 1 and one installment of 7/24 on day 2; the other 179
  installments are lost, and the step returns normally with nothing else changed.
\<close>

theorem vesting_truncation_silent_counterexample:
  "update_agents demo_model None
     = Inr (demo_model\<lparr>agents :=
         [(demo_agent 0 (7 * 1024 / 10))\<lparr>accounting_df :=
             [demo_acct 0,
              (demo_acct 1)\<lparr>reward_FIL := 35 / 2, full_reward_for_power_FIL := 70\<rparr>,
              (demo_acct 2)\<lparr>reward_FIL := 7 / 24\<rparr>]\<rparr>,
          (demo_agent 1 (3 * 1024 / 10))\<lparr>accounting_df :=
             [demo_acct 0,
              (demo_acct 1)\<lparr>reward_FIL := 15 / 2, full_reward_for_power_FIL := 30\<rparr>,
              (demo_acct 2)\<lparr>reward_FIL := 1 / 8\<rparr>]\<rparr>]\<rparr>)
   \<and> (35 / 2 + 7 / 24 :: real) < 70"
  by (simp add: update_agents_def update_agents_agent_def get_agent_power_proportion_def
        accumulate_def loc_slice_update_def post_global_step_def
        demo_defs frame_defs EIB_def PIB_def)

section \<open>Rewards after the construction\<close>

lemma demo_bootstrap:
  "\<exists>m1. fast_forward_circulating_supply demo_locking demo_model demo_supply True True 0 = Inr m1
        \<and> map reward_FIL (accounting_df (agents m1 ! 0)) = [0, 35 / 2, 7 / 24]
        \<and> map reward_FIL (accounting_df (agents m1 ! 1)) = [0, 15 / 2, 1 / 8]
        \<and> map full_reward_for_power_FIL (accounting_df (agents m1 ! 0)) = [0, 70, 0]
        \<and> length (agents m1) = 2"
  by (simp add: fast_forward_circulating_supply_def fast_forward_day_def
        update_sched_expire_pledge_def update_sched_expire_pledge_agent_def schedule_release_def
        agent_renewal_ratio_def update_circulating_supply_def update_circulating_supply_agent_def
        update_generated_quantities_def update_agents_def update_agents_agent_def
        get_agent_power_proportion_def accumulate_def loc_slice_update_def loc_slice_assign_def
        diff_mean_def post_global_step_def demo_supply_def
        demo_defs frame_defs EIB_def PIB_def)

lemma map_all_zero:
  fixes f :: "'a \<Rightarrow> real"
  assumes "\<forall>r \<in> set xs. f r = 0"
  shows "map f xs = replicate (length xs) 0"
  using assms by (induction xs) simp_all

text \<open>
  Claim C10. \<^verbatim>\<open>_zero_agent_rewards\<close> leaves \<open>reward_FIL = 0\<close> in every row of every agent's
  ledger. The constructor calls it right after the bootstrap, so when the bootstrap
  returns, the model it hands over has \<open>reward_FIL = 0\<close> everywhere, whatever the replay of
  the historical days credited; the network ledger and the other columns of the agents'
  ledgers are those the bootstrap left.
\<close>

theorem rewards_zero_after_construction:
  "(\<forall>ag \<in> set (agents (zero_agent_rewards m)). \<forall>r \<in> set (accounting_df ag). reward_FIL r = 0)
   \<and> (init_fast_forward_and_zero L m supply_df compute_cs_from_networkdatastart
          use_historical_gas final_historical_data_idx = Inr m' \<longrightarrow>
        (\<forall>ag \<in> set (agents m'). \<forall>r \<in> set (accounting_df ag). reward_FIL r = 0)
      \<and> (\<exists>m1. fast_forward_circulating_supply L m supply_df compute_cs_from_networkdatastart
                  use_historical_gas final_historical_data_idx = Inr m1
            \<and> filecoin_df m' = filecoin_df m1
            \<and> length (agents m') = length (agents m1)
            \<and> (\<forall>i < length (agents m1).
                  accounting_df (agents m' ! i)
                    = map (\<lambda>r. r\<lparr>reward_FIL := 0\<rparr>) (accounting_df (agents m1 ! i)))))"
proof (intro conjI impI)
  show z: "\<forall>ag \<in> set (agents (zero_agent_rewards m)). \<forall>r \<in> set (accounting_df ag). reward_FIL r = 0"
    for m :: "('a, 'b) filecoin_model"
    by (auto simp: zero_agent_rewards_def)
  assume run: "init_fast_forward_and_zero L m supply_df compute_cs_from_networkdatastart
                 use_historical_gas final_historical_data_idx = Inr m'"
  then obtain m1 where
    ff: "fast_forward_circulating_supply L m supply_df compute_cs_from_networkdatastart
           use_historical_gas final_historical_data_idx = Inr m1"
    and m': "m' = zero_agent_rewards m1"
    unfolding init_fast_forward_and_zero_def by (auto simp: bind_res_eq_Inr)
  show "\<forall>ag \<in> set (agents m'). \<forall>r \<in> set (accounting_df ag). reward_FIL r = 0"
    unfolding m' by (rule z)
  show "\<exists>m1. fast_forward_circulating_supply L m supply_df compute_cs_from_networkdatastart
                  use_historical_gas final_historical_data_idx = Inr m1
            \<and> filecoin_df m' = filecoin_df m1
            \<and> length (agents m') = length (agents m1)
            \<and> (\<forall>i < length (agents m1).
                  accounting_df (agents m' ! i)
                    = map (\<lambda>r. r\<lparr>reward_FIL := 0\<rparr>) (accounting_df (agents m1 ! i)))"
    by (rule exI [of _ m1]) (simp add: ff m' zero_agent_rewards_def)
qed

theorem rewards_zero_after_construction_witness:
  "\<exists>m1 m'. fast_forward_circulating_supply demo_locking demo_model demo_supply True True 0 = Inr m1
     \<and> map reward_FIL (accounting_df (agents m1 ! 0)) = [0, 35 / 2, 7 / 24]
     \<and> map reward_FIL (accounting_df (agents m1 ! 1)) = [0, 15 / 2, 1 / 8]
     \<and> init_fast_forward_and_zero demo_locking demo_model demo_supply True True 0 = Inr m'
     \<and> map reward_FIL (accounting_df (agents m' ! 0)) = [0, 0, 0]
     \<and> map reward_FIL (accounting_df (agents m' ! 1)) = [0, 0, 0]
     \<and> map full_reward_for_power_FIL (accounting_df (agents m' ! 0)) = [0, 70, 0]"
proof -
  from demo_bootstrap obtain m1 where
    P: "fast_forward_circulating_supply demo_locking demo_model demo_supply True True 0 = Inr m1
        \<and> map reward_FIL (accounting_df (agents m1 ! 0)) = [0, 35 / 2, 7 / 24]
        \<and> map reward_FIL (accounting_df (agents m1 ! 1)) = [0, 15 / 2, 1 / 8]
        \<and> map full_reward_for_power_FIL (accounting_df (agents m1 ! 0)) = [0, 70, 0]
        \<and> length (agents m1) = 2" ..
  note ff = P [THEN conjunct1]
    and r0 = P [THEN conjunct2, THEN conjunct1]
    and r1 = P [THEN conjunct2, THEN conjunct2, THEN conjunct1]
    and f0 = P [THEN conjunct2, THEN conjunct2, THEN conjunct2, THEN conjunct1]
    and l = P [THEN conjunct2, THEN conjunct2, THEN conjunct2, THEN conjunct2]
  have run: "init_fast_forward_and_zero demo_locking demo_model demo_supply True True 0
               = Inr (zero_agent_rewards m1)"
    by (simp add: init_fast_forward_and_zero_def ff)
  note t = rewards_zero_after_construction [THEN conjunct2, rule_format, OF run]
  have z: "\<forall>ag \<in> set (agents (zero_agent_rewards m1)). \<forall>r \<in> set (accounting_df ag). reward_FIL r = 0"
    by (rule t [THEN conjunct1])
  from t [THEN conjunct2] obtain m2 where
    Q: "fast_forward_circulating_supply demo_locking demo_model demo_supply True True 0 = Inr m2
        \<and> filecoin_df (zero_agent_rewards m1) = filecoin_df m2
        \<and> length (agents (zero_agent_rewards m1)) = length (agents m2)
        \<and> (\<forall>i < length (agents m2).
              accounting_df (agents (zero_agent_rewards m1) ! i)
                = map (\<lambda>r. r\<lparr>reward_FIL := 0\<rparr>) (accounting_df (agents m2 ! i)))" ..
  have m2: "m2 = m1" using Q [THEN conjunct1] ff by simp
  note la = Q [THEN conjunct2, THEN conjunct2, THEN conjunct1, unfolded m2]
    and a = Q [THEN conjunct2, THEN conjunct2, THEN conjunct2, unfolded m2]
  have len: "length (accounting_df (agents m1 ! i)) = 3" if "i < 2" for i
  proof -
    from that have "i = 0 \<or> i = 1" by auto
    then show ?thesis using arg_cong [OF r0, of length] arg_cong [OF r1, of length] by auto
  qed
  have zero: "map reward_FIL (accounting_df (agents (zero_agent_rewards m1) ! i)) = [0, 0, 0]"
    if i: "i < 2" for i
  proof -
    have m: "agents (zero_agent_rewards m1) ! i \<in> set (agents (zero_agent_rewards m1))"
      using i l la by simp
    have "length (accounting_df (agents (zero_agent_rewards m1) ! i)) = 3"
      using a i l len [OF i] by simp
    moreover have "\<forall>r \<in> set (accounting_df (agents (zero_agent_rewards m1) ! i)). reward_FIL r = 0"
      using z m by blast
    ultimately show ?thesis
      using map_all_zero [of "accounting_df (agents (zero_agent_rewards m1) ! i)" reward_FIL]
      by (simp add: numeral_3_eq_3)
  qed
  have full: "map full_reward_for_power_FIL (accounting_df (agents (zero_agent_rewards m1) ! 0))
                = [0, 70, 0]"
    using a l f0 by (simp add: comp_def)
  show ?thesis
    by (rule exI [of _ m1], rule exI [of _ "zero_agent_rewards m1"])
       (intro conjI ff r0 r1 run zero full; simp)
qed

section \<open>Locked collateral\<close>





end
